theory Spec2Isabelle
  imports Main "HOL-Library.Option_ord" "HOL-Library.AList" "HOL-Library.Multiset"
begin

unbundle bit_operations_syntax

section \<open>JavaScript values and objects\<close>

text \<open>
  Request bodies, stored documents and JSON responses are JavaScript values. A JSON
  number is modelled as an integer (the dates, sizes and counters of this program),
  a \<open>Date\<close> as its number of milliseconds, and an object as the list of its own
  properties in insertion order. A property that is absent reads as \<open>None\<close>, which is
  JavaScript's \<open>undefined\<close>.
\<close>

datatype jval =
    JNull
  | JBool bool
  | JNum int
  | JStr string
  | JDate int
  | JArr "jval list"
  | JObj "(string \<times> jval) list"

type_synonym obj = "(string \<times> jval) list"

definition prop_of :: "obj \<Rightarrow> string \<Rightarrow> jval option" where
  "prop_of ob k = map_of ob k"

text \<open>The operand test of \<open>a || b\<close> and of \<open>if (!a)\<close>.\<close>

fun truthy :: "jval option \<Rightarrow> bool" where
  "truthy None = False"
| "truthy (Some JNull) = False"
| "truthy (Some (JBool b)) = b"
| "truthy (Some (JNum n)) = (n \<noteq> 0)"
| "truthy (Some (JStr s)) = (s \<noteq> [])"
| "truthy (Some (JDate t)) = True"
| "truthy (Some (JArr vs)) = True"
| "truthy (Some (JObj ps)) = True"

text \<open>\<open>a || b\<close> on property reads.\<close>

definition or_else :: "jval option \<Rightarrow> jval option \<Rightarrow> jval option" where
  "or_else a b = (if truthy a then a else b)"

text \<open>\<open>a || b\<close> where \<open>b\<close> is a value.\<close>

definition or_default :: "jval option \<Rightarrow> jval \<Rightarrow> jval" where
  "or_default a b = (case a of None \<Rightarrow> b | Some v \<Rightarrow> (if truthy a then v else b))"

text \<open>The object literal \<open>{ ...ob, k: v }\<close>.\<close>

definition spread_with :: "obj \<Rightarrow> string \<Rightarrow> jval \<Rightarrow> obj" where
  "spread_with ob k v = AList.update k v ob"

text \<open>An object literal whose property values may be \<open>undefined\<close>.\<close>

fun literal :: "(string \<times> jval option) list \<Rightarrow> obj" where
  "literal [] = []"
| "literal ((k, None) # ps) = literal ps"
| "literal ((k, Some v) # ps) = (k, v) # literal ps"

text \<open>Decimal text of a number, as string concatenation and \<open>toString\<close> produce it.\<close>

function show_nat :: "nat \<Rightarrow> string" where
  "show_nat n =
     (if n < 10 then [''0123456789'' ! n]
      else show_nat (n div 10) @ [''0123456789'' ! (n mod 10)])"
  by pat_completeness auto
termination
  by (relation "measure id") auto

declare show_nat.simps [simp del]

definition show_int :: "int \<Rightarrow> string" where
  "show_int i = (if i < 0 then ''-'' @ show_nat (nat (- i)) else show_nat (nat i))"

text \<open>\<open>s.includes(sub)\<close>.\<close>

fun starts_with :: "string \<Rightarrow> string \<Rightarrow> bool" where
  "starts_with s [] = True"
| "starts_with [] (c # cs) = False"
| "starts_with (x # xs) (c # cs) = (x = c \<and> starts_with xs cs)"

fun str_includes :: "string \<Rightarrow> string \<Rightarrow> bool" where
  "str_includes [] sub = (sub = [])"
| "str_includes (x # xs) sub = (starts_with (x # xs) sub \<or> str_includes xs sub)"

section \<open>The environment of a request\<close>

text \<open>
  \<open>process.env\<close>, read once when the module is loaded. An unset variable is \<open>None\<close>;
  a variable set to the empty string is falsy like an unset one.
\<close>

record config =
  MONGODB_URI :: "string option"
  AWS_ACCESS_KEY_ID :: "string option"
  AWS_SECRET_ACCESS_KEY :: "string option"
  AWS_REGION :: "string option"
  S3_BUCKET_NAME :: "string option"

fun env_set :: "string option \<Rightarrow> bool" where
  "env_set None = False"
| "env_set (Some s) = (s \<noteq> [])"

text \<open>
  What a request meets outside the program: the clock, the random source, the state
  of the database connection, and the outcome of the calls that leave the process.
  Each failure is \<open>Some\<close> of the error's message. \<open>lib_cast\<close> is the document
  library's conversion for the value shapes that the casts below do not spell out
  (date and number parsing of strings, for instance).
\<close>

datatype ftype = TString | TNumber | TDate | TStrings

record world =
  now :: int
  random16 :: "nat \<Rightarrow> nat"
  ready :: bool
  connect_error :: "string option"
  s3_error :: "string option"
  multer_error :: "string option"
  lib_cast :: "ftype \<Rightarrow> jval \<Rightarrow> jval option"

section \<open>models.js\<close>

datatype model =
    File | Note | Project | Contact
  | PythonCode | JavascriptCode | HtmlCode | CssCode | OtherCode

text \<open>
  A schema path: its name, its type, whether it is \<open>required\<close>, and whether it has
  \<open>default: Date.now\<close>.
\<close>

record spath =
  p_name :: string
  p_type :: ftype
  p_required :: bool
  p_default_now :: bool

definition optional_path :: "string \<Rightarrow> ftype \<Rightarrow> spath" where
  "optional_path n t = \<lparr>p_name = n, p_type = t, p_required = False, p_default_now = False\<rparr>"

definition required_path :: "string \<Rightarrow> ftype \<Rightarrow> spath" where
  "required_path n t = \<lparr>p_name = n, p_type = t, p_required = True, p_default_now = False\<rparr>"

definition date_path :: "string \<Rightarrow> spath" where
  "date_path n = \<lparr>p_name = n, p_type = TDate, p_required = False, p_default_now = True\<rparr>"

definition fileSchema :: "spath list" where
  "fileSchema =
     [required_path ''id'' TString,
      optional_path ''title'' TString,
      optional_path ''description'' TString,
      optional_path ''tags'' TStrings,
      optional_path ''filename'' TString,
      optional_path ''originalname'' TString,
      optional_path ''path'' TString,
      optional_path ''mimetype'' TString,
      optional_path ''size'' TNumber,
      date_path ''date'']"

definition noteSchema :: "spath list" where
  "noteSchema =
     [required_path ''id'' TString,
      required_path ''title'' TString,
      optional_path ''content'' TString,
      date_path ''date'']"

definition projectSchema :: "spath list" where
  "projectSchema =
     [required_path ''id'' TString,
      required_path ''name'' TString,
      optional_path ''description'' TString,
      date_path ''date'']"

definition contactSchema :: "spath list" where
  "contactSchema =
     [required_path ''id'' TString,
      required_path ''name'' TString,
      optional_path ''email'' TString,
      optional_path ''phone'' TString,
      optional_path ''notes'' TString,
      date_path ''date'']"

definition codeSchema :: "spath list" where
  "codeSchema =
     [required_path ''id'' TString,
      required_path ''title'' TString,
      optional_path ''content'' TString,
      date_path ''date'']"

fun schema_of :: "model \<Rightarrow> spath list" where
  "schema_of File = fileSchema"
| "schema_of Note = noteSchema"
| "schema_of Project = projectSchema"
| "schema_of Contact = contactSchema"
| "schema_of PythonCode = codeSchema"
| "schema_of JavascriptCode = codeSchema"
| "schema_of HtmlCode = codeSchema"
| "schema_of CssCode = codeSchema"
| "schema_of OtherCode = codeSchema"

text \<open>\<open>module.exports\<close> of models.js: nine models, under these names.\<close>

definition models_exports :: "(string \<times> model) list" where
  "models_exports =
     [(''File'', File), (''Note'', Note), (''Project'', Project), (''Contact'', Contact),
      (''PythonCode'', PythonCode), (''JavascriptCode'', JavascriptCode),
      (''HtmlCode'', HtmlCode), (''CssCode'', CssCode), (''OtherCode'', OtherCode)]"

section \<open>The document store\<close>

text \<open>
  The document library and the database behind it are not part of the repository.
  They are modelled as far as the routes use them: a collection is the list of its
  documents in insertion order; a document is built from an object by the schema
  (unknown properties are dropped, every value is cast to the type of its path, a
  missing \<open>date\<close> gets the current time, a missing array gets the empty array,
  required paths are checked); \<open>id\<close> is unique within a collection.
  Texts of the library's error messages are representative, not literal.
\<close>

type_synonym doc = obj

definition castString :: "world \<Rightarrow> jval \<Rightarrow> jval option" where
  "castString w v =
     (case v of
        JNull \<Rightarrow> Some JNull
      | JStr s \<Rightarrow> Some (JStr s)
      | JNum n \<Rightarrow> Some (JStr (show_int n))
      | JBool b \<Rightarrow> Some (JStr (if b then ''true'' else ''false''))
      | JArr vs \<Rightarrow> None
      | JObj ps \<Rightarrow> (case prop_of ps ''_id'' of Some (JStr s) \<Rightarrow> Some (JStr s) | _ \<Rightarrow> None)
      | JDate t \<Rightarrow> (case lib_cast w TString v of Some (JStr s) \<Rightarrow> Some (JStr s) | _ \<Rightarrow> None))"

definition castDate :: "world \<Rightarrow> jval \<Rightarrow> jval option" where
  "castDate w v =
     (case v of
        JNull \<Rightarrow> Some JNull
      | JDate t \<Rightarrow> Some (JDate t)
      | JNum n \<Rightarrow> Some (JDate n)
      | JBool b \<Rightarrow> None
      | JStr s \<Rightarrow>
          (if s = [] then Some JNull
           else (case lib_cast w TDate v of Some (JDate t) \<Rightarrow> Some (JDate t) | _ \<Rightarrow> None))
      | _ \<Rightarrow> (case lib_cast w TDate v of Some (JDate t) \<Rightarrow> Some (JDate t) | _ \<Rightarrow> None))"

definition castNumber :: "world \<Rightarrow> jval \<Rightarrow> jval option" where
  "castNumber w v =
     (case v of
        JNull \<Rightarrow> Some JNull
      | JNum n \<Rightarrow> Some (JNum n)
      | JBool b \<Rightarrow> Some (JNum (if b then 1 else 0))
      | JDate t \<Rightarrow> Some (JNum t)
      | JArr vs \<Rightarrow> None
      | JStr s \<Rightarrow>
          (if s = [] then Some JNull
           else (case lib_cast w TNumber v of Some (JNum n) \<Rightarrow> Some (JNum n) | _ \<Rightarrow> None))
      | JObj ps \<Rightarrow> (case lib_cast w TNumber v of Some (JNum n) \<Rightarrow> Some (JNum n) | _ \<Rightarrow> None))"

fun cast_all :: "world \<Rightarrow> jval list \<Rightarrow> jval list option" where
  "cast_all w [] = Some []"
| "cast_all w (v # vs) =
     (case castString w v of
        None \<Rightarrow> None
      | Some s \<Rightarrow> (case cast_all w vs of None \<Rightarrow> None | Some ss \<Rightarrow> Some (s # ss)))"

definition castStrings :: "world \<Rightarrow> jval \<Rightarrow> jval option" where
  "castStrings w v =
     (case v of
        JArr vs \<Rightarrow> map_option JArr (cast_all w vs)
      | _ \<Rightarrow> (case lib_cast w TStrings v of Some (JArr vs) \<Rightarrow> Some (JArr vs) | _ \<Rightarrow> None))"

fun cast :: "world \<Rightarrow> ftype \<Rightarrow> jval \<Rightarrow> jval option" where
  "cast w TString v = castString w v"
| "cast w TNumber v = castNumber w v"
| "cast w TDate v = castDate w v"
| "cast w TStrings v = castStrings w v"

text \<open>The value a path gets when the object does not have it.\<close>

definition path_default :: "world \<Rightarrow> spath \<Rightarrow> jval option" where
  "path_default w p =
     (if p_default_now p then Some (JDate (now w))
      else if p_type p = TStrings then Some (JArr [])
      else None)"

text \<open>The \<open>required\<close> validator: the value is there, not null, not the empty string.\<close>

fun required_ok :: "jval option \<Rightarrow> bool" where
  "required_ok None = False"
| "required_ok (Some JNull) = False"
| "required_ok (Some (JStr s)) = (s \<noteq> [])"
| "required_ok (Some v) = True"

text \<open>
  The value of one path of a new document: the cast property of the object, or the
  path's default when the object does not have the property. \<open>Inl\<close> is the failed cast.
\<close>

definition path_value :: "world \<Rightarrow> spath \<Rightarrow> obj \<Rightarrow> string + jval option" where
  "path_value w p ob =
     (case prop_of ob (p_name p) of
        None \<Rightarrow> Inr (path_default w p)
      | Some v \<Rightarrow>
          (case cast w (p_type p) v of
             None \<Rightarrow> Inl (''Cast failed for path '' @ p_name p)
           | Some c \<Rightarrow> Inr (Some c)))"

text \<open>
  \<open>new Model(ob)\<close> followed by validation, path by path: \<open>Inl\<close> is the validation
  error (a failed cast or a missing required path).
\<close>

fun build_doc :: "world \<Rightarrow> spath list \<Rightarrow> obj \<Rightarrow> string + doc" where
  "build_doc w [] ob = Inr []"
| "build_doc w (p # ps) ob =
     (case path_value w p ob of
        Inl e \<Rightarrow> Inl e
      | Inr x \<Rightarrow>
          (if p_required p \<and> \<not> required_ok x
           then Inl (''Path '' @ p_name p @ '' is required.'')
           else (case build_doc w ps ob of
                   Inl e \<Rightarrow> Inl e
                 | Inr d \<Rightarrow> Inr (literal [(p_name p, x)] @ d))))"

text \<open>The sort key of \<open>sort({ date: -1 })\<close>: a document without a date sorts lowest.\<close>

definition date_key :: "doc \<Rightarrow> int option" where
  "date_key d = (case prop_of d ''date'' of Some (JDate t) \<Rightarrow> Some t | _ \<Rightarrow> None)"

fun insert_desc :: "doc \<Rightarrow> doc list \<Rightarrow> doc list" where
  "insert_desc d [] = [d]"
| "insert_desc d (e # es) =
     (if date_key e \<le> date_key d then d # e # es else e # insert_desc d es)"

fun sort_date_desc :: "doc list \<Rightarrow> doc list" where
  "sort_date_desc [] = []"
| "sort_date_desc (d # ds) = insert_desc d (sort_date_desc ds)"

definition has_id :: "string \<Rightarrow> doc \<Rightarrow> bool" where
  "has_id i d = (prop_of d ''id'' = Some (JStr i))"

fun first_with :: "('a \<Rightarrow> bool) \<Rightarrow> 'a list \<Rightarrow> 'a option" where
  "first_with P [] = None"
| "first_with P (x # xs) = (if P x then Some x else first_with P xs)"

fun remove_first :: "('a \<Rightarrow> bool) \<Rightarrow> 'a list \<Rightarrow> 'a list" where
  "remove_first P [] = []"
| "remove_first P (x # xs) = (if P x then xs else x # remove_first P xs)"

fun replace_first :: "('a \<Rightarrow> bool) \<Rightarrow> 'a \<Rightarrow> 'a list \<Rightarrow> 'a list" where
  "replace_first P y [] = []"
| "replace_first P y (x # xs) = (if P x then y # xs else x # replace_first P y xs)"

text \<open>
  \<open>{ $set: body }\<close> applied to a document: every property of the body that is a path
  of the schema is cast and written, the others are dropped.
\<close>

fun apply_set :: "world \<Rightarrow> spath list \<Rightarrow> obj \<Rightarrow> doc \<Rightarrow> string + doc" where
  "apply_set w sch [] d = Inr d"
| "apply_set w sch ((k, v) # kvs) d =
     (case first_with (\<lambda>p. p_name p = k) sch of
        None \<Rightarrow> apply_set w sch kvs d
      | Some p \<Rightarrow>
          (case cast w (p_type p) v of
             None \<Rightarrow> Inl (''Cast failed for path '' @ k)
           | Some c \<Rightarrow> apply_set w sch kvs (AList.update k c d)))"

section \<open>State\<close>

text \<open>
  What outlives a request: the collections, the keys of the objects in the bucket,
  the files of the local scratch directory, the cached database connection, the
  console, and the record of the calls made to the object store and the database's
  write operations, in the order they were made.
\<close>

datatype event =
    S3Put string
  | S3Delete string
  | S3DeleteFailed string
  | DbInsert model doc
  | DbUpdate model string
  | DbDelete model string
  | DbDeleteMany model

record state =
  db :: "model \<Rightarrow> doc list"
  bucket :: "string list"
  scratch :: "string list"
  cachedDb :: bool
  console :: "string list"
  events :: "event list"


text \<open>\<open>Model.create(ob)\<close>: \<open>Inl\<close> is the rejection (validation, or a duplicate \<open>id\<close>).\<close>

definition Model_create :: "world \<Rightarrow> model \<Rightarrow> obj \<Rightarrow> state \<Rightarrow> state \<times> (string + doc)" where
  "Model_create w m ob st =
     (case build_doc w (schema_of m) ob of
        Inl e \<Rightarrow> (st, Inl (''Validation failed: '' @ e))
      | Inr d \<Rightarrow>
          (if list_ex (\<lambda>e. prop_of e ''id'' = prop_of d ''id'') (db st m)
           then (st, Inl ''E11000 duplicate key error'')
           else (st\<lparr>db := (db st)(m := db st m @ [d]),
                    events := events st @ [DbInsert m d]\<rparr>, Inr d)))"

text \<open>\<open>Model.find().sort({ date: -1 })\<close>.\<close>

definition Model_find_sorted :: "model \<Rightarrow> state \<Rightarrow> doc list" where
  "Model_find_sorted m st = sort_date_desc (db st m)"

text \<open>\<open>Model.findOne({ id: i })\<close>: \<open>None\<close> is \<open>null\<close>.\<close>

definition Model_findOne :: "model \<Rightarrow> string \<Rightarrow> state \<Rightarrow> doc option" where
  "Model_findOne m i st = first_with (has_id i) (db st m)"

text \<open>\<open>Model.deleteOne({ id: i })\<close>.\<close>

definition Model_deleteOne :: "model \<Rightarrow> string \<Rightarrow> state \<Rightarrow> state" where
  "Model_deleteOne m i st =
     (if list_ex (has_id i) (db st m)
      then st\<lparr>db := (db st)(m := remove_first (has_id i) (db st m)),
              events := events st @ [DbDelete m i]\<rparr>
      else st)"

text \<open>\<open>Model.deleteMany({})\<close>.\<close>

definition Model_deleteMany :: "model \<Rightarrow> state \<Rightarrow> state" where
  "Model_deleteMany m st =
     st\<lparr>db := (db st)(m := []), events := events st @ [DbDeleteMany m]\<rparr>"

text \<open>
  \<open>Model.findOneAndUpdate({ id: i }, { $set: body }, { new: true })\<close>: \<open>Inr None\<close> is
  the \<open>null\<close> the library returns when no document matches.
\<close>

definition Model_findOneAndUpdate ::
  "world \<Rightarrow> model \<Rightarrow> string \<Rightarrow> obj \<Rightarrow> state \<Rightarrow> state \<times> (string + doc option)" where
  "Model_findOneAndUpdate w m i body st =
     (case first_with (has_id i) (db st m) of
        None \<Rightarrow> (st, Inr None)
      | Some d \<Rightarrow>
          (case apply_set w (schema_of m) body d of
             Inl e \<Rightarrow> (st, Inl e)
           | Inr d' \<Rightarrow>
               (if prop_of d' ''id'' \<noteq> prop_of d ''id'' \<and>
                   list_ex (\<lambda>e. prop_of e ''id'' = prop_of d' ''id'') (db st m)
                then (st, Inl ''E11000 duplicate key error'')
                else (st\<lparr>db := (db st)(m := replace_first (has_id i) d' (db st m)),
                         events := events st @ [DbUpdate m i]\<rparr>, Inr (Some d')))))"

section \<open>The object store\<close>

text \<open>
  The variable \<open>s3\<close> is assigned when the module is loaded, if both the access key and
  the bucket name are set; otherwise it stays \<open>undefined\<close>.
\<close>

definition s3 :: "config \<Rightarrow> bool" where
  "s3 cfg = (env_set (AWS_ACCESS_KEY_ID cfg) \<and> env_set (S3_BUCKET_NAME cfg))"

record signed_url =
  su_operation :: string
  su_bucket :: string
  su_key :: string
  su_expires :: nat

text \<open>
  The client validates its parameters before it does anything else: a \<open>Key\<close> (or
  \<open>Bucket\<close>) that is not a non-empty string is an error.
\<close>

fun param_string :: "jval option \<Rightarrow> string option" where
  "param_string (Some (JStr s)) = (if s = [] then None else Some s)"
| "param_string v = None"

text \<open>\<open>s3.getSignedUrl(operation, { Bucket, Key, Expires })\<close>, which makes no call.\<close>

definition getSignedUrl ::
  "string \<Rightarrow> string option \<Rightarrow> jval option \<Rightarrow> nat \<Rightarrow> string + signed_url" where
  "getSignedUrl operation bkt key expires =
     (case bkt of
        None \<Rightarrow> Inl ''Missing required key Bucket in params''
      | Some b \<Rightarrow>
          (case param_string key of
             None \<Rightarrow> Inl ''Missing required key Key in params''
           | Some k \<Rightarrow>
               Inr \<lparr>su_operation = operation, su_bucket = b, su_key = k,
                    su_expires = expires\<rparr>))"

text \<open>\<open>s3.deleteObject({ Bucket, Key }).promise()\<close>.\<close>

definition deleteObject :: "world \<Rightarrow> jval option \<Rightarrow> state \<Rightarrow> state \<times> (string + unit)" where
  "deleteObject w key st =
     (case param_string key of
        None \<Rightarrow> (st, Inl ''Missing required key Key in params'')
      | Some k \<Rightarrow>
          (case s3_error w of
             Some e \<Rightarrow> (st\<lparr>events := events st @ [S3DeleteFailed k]\<rparr>, Inl e)
           | None \<Rightarrow>
               (st\<lparr>bucket := removeAll k (bucket st),
                   events := events st @ [S3Delete k]\<rparr>, Inr ())))"

section \<open>The server\<close>

subsection \<open>Responses\<close>

datatype payload = Json jval | NoBody | Redirect signed_url | Html string

record response =
  status :: nat
  payload :: payload

definition json :: "nat \<Rightarrow> jval \<Rightarrow> response" where
  "json code v = \<lparr>status = code, payload = Json v\<rparr>"

definition error_body :: "string \<Rightarrow> jval" where
  "error_body msg = JObj [(''error'', JStr msg)]"

subsection \<open>Database connection\<close>

definition connectToDatabase :: "config \<Rightarrow> world \<Rightarrow> state \<Rightarrow> state \<times> (string + unit)" where
  "connectToDatabase cfg w st =
     (if cachedDb st \<and> ready w then (st, Inr ())
      else if \<not> env_set (MONGODB_URI cfg)
      then (st, Inl ''MONGODB_URI is missing in Environment Variables'')
      else (case connect_error w of
              None \<Rightarrow>
                (st\<lparr>cachedDb := True,
                    console := console st @ [''Connected to MongoDB Atlas'']\<rparr>, Inr ())
            | Some e \<Rightarrow>
                (st\<lparr>console := console st @ [''MongoDB connection error: '' @ e]\<rparr>, Inl e)))"

subsection \<open>Helpers\<close>

fun fill :: "(nat \<Rightarrow> nat) \<Rightarrow> nat \<Rightarrow> string \<Rightarrow> string" where
  "fill r k [] = []"
| "fill r k (c # cs) =
     (if c = CHR ''x'' \<or> c = CHR ''y''
      then (let r16 = r k mod 16;
                v = (if c = CHR ''x'' then r16 else (r16 AND 3) OR 8)
            in (''0123456789abcdef'' ! v) # fill r (Suc k) cs)
      else c # fill r k cs)"

definition generateId :: "world \<Rightarrow> string" where
  "generateId w = fill (random16 w) 0 ''xxxxxxxx-xxxx-4xxx-yxxx-xxxxxxxxxxxx''"

definition modelMap :: "(string \<times> model) list" where
  "modelMap =
     [(''files'', File), (''notes'', Note), (''projects'', Project), (''contacts'', Contact),
      (''pythonCodes'', PythonCode), (''javascriptCodes'', JavascriptCode),
      (''htmlCodes'', HtmlCode), (''cssCodes'', CssCode), (''otherCodes'', OtherCode)]"

text \<open>
  \<open>modelMap\<close> is an object literal, so \<open>modelMap[key]\<close> also finds what every object
  inherits: \<open>Object\<close> itself under \<open>constructor\<close>, the prototype under \<open>__proto__\<close>, and
  the prototype's methods. None of them is a model.
\<close>

datatype jsref = Model model | ObjectFunction | ObjectPrototype | PrototypeMethod string

definition inherited_methods :: "string list" where
  "inherited_methods =
     [''__defineGetter__'', ''__defineSetter__'', ''hasOwnProperty'', ''__lookupGetter__'',
      ''__lookupSetter__'', ''isPrototypeOf'', ''propertyIsEnumerable'', ''toString'',
      ''valueOf'', ''toLocaleString'']"

definition modelMap_get :: "string \<Rightarrow> jsref option" where
  "modelMap_get k =
     (case map_of modelMap k of
        Some m \<Rightarrow> Some (Model m)
      | None \<Rightarrow>
          (if k = ''constructor'' then Some ObjectFunction
           else if k = ''__proto__'' then Some ObjectPrototype
           else if k \<in> set inherited_methods then Some (PrototypeMethod k)
           else None))"

definition getModel :: "string \<Rightarrow> jsref option" where
  "getModel token =
     (if token \<in> set [''python'', ''javascript'', ''html'', ''css'', ''other'']
      then modelMap_get (token @ ''Codes'')
      else modelMap_get token)"

text \<open>
  \<open>req.params\<close>, and \<open>req.params.subtype || req.params.type\<close>. Where the result is
  \<open>undefined\<close>, both the property lookup and the template literal turn it into the
  text \<open>undefined\<close>.
\<close>

record params =
  type_param :: "string option"
  subtype_param :: "string option"

definition resolve_type :: "params \<Rightarrow> string" where
  "resolve_type ps =
     (case (case subtype_param ps of
              Some s \<Rightarrow> (if s \<noteq> [] then Some s else type_param ps)
            | None \<Rightarrow> type_param ps) of
        Some t \<Rightarrow> t
      | None \<Rightarrow> ''undefined'')"

text \<open>The global error handler, which every \<open>next(err)\<close> reaches.\<close>

definition error_handler :: "string \<Rightarrow> state \<Rightarrow> state \<times> response" where
  "error_handler msg st =
     (st\<lparr>console := console st @ [''Server Error: '' @ msg]\<rparr>,
      json 500 (error_body (if msg = [] then ''Internal Server Error'' else msg)))"

text \<open>
  The binding \<open>Activity\<close> that the server takes from \<open>require('./models')\<close>: the
  property of that name in the module's exports, \<open>undefined\<close> if there is none.
\<close>

definition Activity :: "model option" where
  "Activity = map_of models_exports ''Activity''"


subsection \<open>Activity log routes\<close>

text \<open>
  The three handlers are written over the binding \<open>A\<close> they test with
  \<open>if (!Activity)\<close>; the server runs them with \<open>A = Activity\<close>.
\<close>

definition get_activity_with ::
  "model option \<Rightarrow> config \<Rightarrow> world \<Rightarrow> state \<Rightarrow> state \<times> response" where
  "get_activity_with A cfg w st =
     (case connectToDatabase cfg w st of
        (st1, Inl e) \<Rightarrow> error_handler e st1
      | (st1, Inr u) \<Rightarrow>
          (case A of
             None \<Rightarrow>
               error_handler ''Activity Model is not defined. Check models.js exports.'' st1
           | Some m \<Rightarrow>
               (st1, json 200 (JArr (map JObj (take 20 (Model_find_sorted m st1)))))))"

definition post_activity_with ::
  "model option \<Rightarrow> config \<Rightarrow> world \<Rightarrow> obj \<Rightarrow> state \<Rightarrow> state \<times> response" where
  "post_activity_with A cfg w body st =
     (case connectToDatabase cfg w st of
        (st1, Inl e) \<Rightarrow> error_handler e st1
      | (st1, Inr u) \<Rightarrow>
          (case A of
             None \<Rightarrow>
               error_handler ''Activity Model is not defined. Check models.js exports.'' st1
           | Some m \<Rightarrow>
               (let newActivity = literal
                      [(''id'', Some (JStr (generateId w))),
                       (''action'', prop_of body ''action''),
                       (''itemType'', prop_of body ''itemType''),
                       (''itemName'', prop_of body ''itemName''),
                       (''date'', Some (JDate (now w)))]
                in case Model_create w m newActivity st1 of
                     (st2, Inl e) \<Rightarrow> error_handler e st2
                   | (st2, Inr saved) \<Rightarrow> (st2, json 201 (JObj saved)))))"

definition delete_activity_with ::
  "model option \<Rightarrow> config \<Rightarrow> world \<Rightarrow> state \<Rightarrow> state \<times> response" where
  "delete_activity_with A cfg w st =
     (case connectToDatabase cfg w st of
        (st1, Inl e) \<Rightarrow> error_handler e st1
      | (st1, Inr u) \<Rightarrow>
          (case A of
             None \<Rightarrow> error_handler ''Activity Model is not defined.'' st1
           | Some m \<Rightarrow> (Model_deleteMany m st1, \<lparr>status = 204, payload = NoBody\<rparr>)))"

definition get_activity :: "config \<Rightarrow> world \<Rightarrow> state \<Rightarrow> state \<times> response" where
  "get_activity = get_activity_with Activity"

definition post_activity :: "config \<Rightarrow> world \<Rightarrow> obj \<Rightarrow> state \<Rightarrow> state \<times> response" where
  "post_activity = post_activity_with Activity"

definition delete_activity :: "config \<Rightarrow> world \<Rightarrow> state \<Rightarrow> state \<times> response" where
  "delete_activity = delete_activity_with Activity"

subsection \<open>Generic routes\<close>

text \<open>
  Calling a method that the value does not have is a \<open>TypeError\<close>, caught by the
  handler's \<open>try\<close>. \<open>Object\<close> has no \<open>find\<close>, \<open>findOne\<close> or \<open>findOneAndUpdate\<close>, but it
  has \<open>create\<close>: \<open>Object.create(ob)\<close> is a new object without own properties.
\<close>

definition get_items :: "config \<Rightarrow> world \<Rightarrow> params \<Rightarrow> state \<Rightarrow> state \<times> response" where
  "get_items cfg w ps st =
     (case connectToDatabase cfg w st of
        (st1, Inl e) \<Rightarrow> error_handler e st1
      | (st1, Inr u) \<Rightarrow>
          (let token = resolve_type ps in
           case getModel token of
             None \<Rightarrow> (st1, json 404 (error_body (''Invalid type: '' @ token)))
           | Some (Model m) \<Rightarrow> (st1, json 200 (JArr (map JObj (Model_find_sorted m st1))))
           | Some other \<Rightarrow> error_handler ''Model.find is not a function'' st1))"

text \<open>The generic POST handler; \<open>None\<close> is its \<open>return next()\<close>.\<close>

definition post_items ::
  "config \<Rightarrow> world \<Rightarrow> string \<Rightarrow> params \<Rightarrow> obj \<Rightarrow> state \<Rightarrow> state \<times> response option" where
  "post_items cfg w path ps body st =
     (if type_param ps = Some ''files'' \<and> str_includes path ''upload'' then (st, None)
      else
        (case connectToDatabase cfg w st of
           (st1, Inl e) \<Rightarrow> map_prod id Some (error_handler e st1)
         | (st1, Inr u) \<Rightarrow>
             (let token = resolve_type ps in
              case getModel token of
                None \<Rightarrow> (st1, Some (json 404 (error_body (''Invalid type: '' @ token))))
              | Some Model_ref \<Rightarrow>
                  (let newItemData =
                         spread_with body ''id''
                           (or_default (prop_of body ''id'') (JStr (generateId w)))
                   in case Model_ref of
                        Model m \<Rightarrow>
                          (case Model_create w m newItemData st1 of
                             (st2, Inl e) \<Rightarrow> map_prod id Some (error_handler e st2)
                           | (st2, Inr savedItem) \<Rightarrow> (st2, Some (json 201 (JObj savedItem))))
                      | ObjectFunction \<Rightarrow> (st1, Some (json 201 (JObj [])))
                      | other \<Rightarrow>
                          map_prod id Some
                            (error_handler ''Model.create is not a function'' st1)))))"

subsection \<open>File routes\<close>

record upfile =
  originalname :: string
  mimetype :: string
  size :: nat

text \<open>
  \<open>upload.single('file')\<close>. With the object store configured the part is streamed to
  the bucket, under a key made of the time and the client's file name, and at most
  50 MiB are accepted; without it the part is written to the scratch directory. The
  result is \<open>req.file\<close> (\<open>None\<close> when the request has no such part) or the error that
  the wrapper passes to \<open>next\<close>.
\<close>

definition bucket_name :: "config \<Rightarrow> string" where
  "bucket_name cfg = (case S3_BUCKET_NAME cfg of Some b \<Rightarrow> b | None \<Rightarrow> ''undefined'')"

definition uploadMiddleware ::
  "config \<Rightarrow> world \<Rightarrow> upfile option \<Rightarrow> state \<Rightarrow> state \<times> (string + obj option)" where
  "uploadMiddleware cfg w part st =
     (case multer_error w of
        Some e \<Rightarrow> (st, Inl e)
      | None \<Rightarrow>
          (case part of
             None \<Rightarrow> (st, Inr None)
           | Some f \<Rightarrow>
               (if s3 cfg then
                  (if size f > 50 * 1024 * 1024 then (st, Inl ''File too large'')
                   else
                     (let key = ''uploads/'' @ show_int (now w) @ ''-'' @ originalname f in
                      (st\<lparr>bucket := bucket st @ [key], events := events st @ [S3Put key]\<rparr>,
                       Inr (Some
                         [(''originalname'', JStr (originalname f)),
                          (''mimetype'', JStr (mimetype f)),
                          (''size'', JNum (int (size f))),
                          (''bucket'', JStr (bucket_name cfg)),
                          (''key'', JStr key),
                          (''location'',
                             JStr (''https://'' @ bucket_name cfg @
                                   ''.s3.amazonaws.com/'' @ key))]))))
                else
                  (let name = map (\<lambda>k. ''0123456789abcdef'' ! (random16 w k mod 16)) [0..<32] in
                   (st\<lparr>scratch := scratch st @ [name]\<rparr>,
                    Inr (Some
                      [(''originalname'', JStr (originalname f)),
                       (''mimetype'', JStr (mimetype f)),
                       (''size'', JNum (int (size f))),
                       (''destination'', JStr ''/tmp/''),
                       (''filename'', JStr name),
                       (''path'', JStr (''/tmp/'' @ name))]))))))"

definition upload_handler ::
  "config \<Rightarrow> world \<Rightarrow> obj \<Rightarrow> obj option \<Rightarrow> state \<Rightarrow> state \<times> response" where
  "upload_handler cfg w body file st =
     (case connectToDatabase cfg w st of
        (st1, Inl e) \<Rightarrow> error_handler e st1
      | (st1, Inr u) \<Rightarrow>
          (if \<not> s3 cfg
           then error_handler ''AWS S3 not configured. Check environment variables.'' st1
           else
             (case file of
                None \<Rightarrow> error_handler ''No file uploaded.'' st1
              | Some f \<Rightarrow>
                  (let fileEntry = literal
                         [(''id'', Some (JStr (generateId w))),
                          (''title'', or_else (prop_of body ''title'') (prop_of f ''originalname'')),
                          (''description'', Some (or_default (prop_of body ''description'') (JStr []))),
                          (''path'', prop_of f ''location''),
                          (''filename'', prop_of f ''key''),
                          (''originalname'', prop_of f ''originalname''),
                          (''mimetype'', prop_of f ''mimetype''),
                          (''size'', prop_of f ''size''),
                          (''date'', Some (JDate (now w)))]
                   in case Model_create w File fileEntry st1 of
                        (st2, Inl e) \<Rightarrow> error_handler e st2
                      | (st2, Inr savedFile) \<Rightarrow> (st2, json 201 (JObj savedFile))))))"

text \<open>\<open>POST /api/files/upload\<close>: the wrapper around the middleware, then the handler.\<close>

definition upload_route ::
  "config \<Rightarrow> world \<Rightarrow> obj \<Rightarrow> upfile option \<Rightarrow> state \<Rightarrow> state \<times> response" where
  "upload_route cfg w body part st =
     (case uploadMiddleware cfg w part st of
        (st1, Inl e) \<Rightarrow> error_handler e st1
      | (st1, Inr file) \<Rightarrow> upload_handler cfg w body file st1)"

definition download_file :: "config \<Rightarrow> world \<Rightarrow> string \<Rightarrow> state \<Rightarrow> state \<times> response" where
  "download_file cfg w i st =
     (case connectToDatabase cfg w st of
        (st1, Inl e) \<Rightarrow> error_handler e st1
      | (st1, Inr u) \<Rightarrow>
          (if \<not> s3 cfg then error_handler ''AWS S3 not configured'' st1
           else
             (case Model_findOne File i st1 of
                None \<Rightarrow> (st1, json 404 (error_body ''File not found''))
              | Some fileEntry \<Rightarrow>
                  (case getSignedUrl ''getObject'' (S3_BUCKET_NAME cfg)
                          (prop_of fileEntry ''filename'') 60 of
                     Inl e \<Rightarrow> error_handler e st1
                   | Inr url \<Rightarrow> (st1, \<lparr>status = 302, payload = Redirect url\<rparr>)))))"

subsection \<open>Generic update and delete\<close>

definition delete_item ::
  "config \<Rightarrow> world \<Rightarrow> params \<Rightarrow> string \<Rightarrow> state \<Rightarrow> state \<times> response" where
  "delete_item cfg w ps i st =
     (case connectToDatabase cfg w st of
        (st1, Inl e) \<Rightarrow> error_handler e st1
      | (st1, Inr u) \<Rightarrow>
          (let token = resolve_type ps in
           case getModel token of
             None \<Rightarrow> (st1, json 404 (error_body ''Invalid type''))
           | Some (Model m) \<Rightarrow>
               (case Model_findOne m i st1 of
                  None \<Rightarrow> (st1, json 404 (error_body ''Not found''))
                | Some item \<Rightarrow>
                    (case (if token = ''files'' \<and> s3 cfg
                           then deleteObject w (prop_of item ''filename'') st1
                           else (st1, Inr ())) of
                       (st2, Inl e) \<Rightarrow> error_handler e st2
                     | (st2, Inr u2) \<Rightarrow>
                         (Model_deleteOne m i st2, \<lparr>status = 204, payload = NoBody\<rparr>)))
           | Some other \<Rightarrow> error_handler ''Model.findOne is not a function'' st1))"

definition update_item ::
  "config \<Rightarrow> world \<Rightarrow> params \<Rightarrow> string \<Rightarrow> obj \<Rightarrow> state \<Rightarrow> state \<times> response" where
  "update_item cfg w ps i body st =
     (case connectToDatabase cfg w st of
        (st1, Inl e) \<Rightarrow> error_handler e st1
      | (st1, Inr u) \<Rightarrow>
          (let token = resolve_type ps in
           case getModel token of
             None \<Rightarrow> (st1, json 404 (error_body ''Invalid type''))
           | Some (Model m) \<Rightarrow>
               (case Model_findOneAndUpdate w m i body st1 of
                  (st2, Inl e) \<Rightarrow> error_handler e st2
                | (st2, Inr None) \<Rightarrow> (st2, json 200 JNull)
                | (st2, Inr (Some updated)) \<Rightarrow> (st2, json 200 (JObj updated)))
           | Some other \<Rightarrow> error_handler ''Model.findOneAndUpdate is not a function'' st1))"

subsection \<open>Routing\<close>

text \<open>
  A request is its method, the segments of its path, its parsed body and, for a
  multipart request, the part named \<open>file\<close>. Routes are tried in the order in which
  the server registers them; a parameter matches one segment. A request that no route
  answers gets the framework's own 404 page.
\<close>

datatype verb = GET | POST | PUT | DELETE

record request =
  rq_verb :: verb
  rq_segments :: "string list"
  rq_body :: obj
  rq_part :: "upfile option"

definition by_type :: "string \<Rightarrow> params" where
  "by_type t = \<lparr>type_param = Some t, subtype_param = None\<rparr>"

definition by_subtype :: "string \<Rightarrow> params" where
  "by_subtype s = \<lparr>type_param = None, subtype_param = Some s\<rparr>"

definition path_of :: "string list \<Rightarrow> string" where
  "path_of segs = concat (map (\<lambda>s. ''/'' @ s) segs)"

definition no_route :: "state \<Rightarrow> state \<times> response" where
  "no_route st = (st, \<lparr>status = 404, payload = Html ''Cannot find route''\<rparr>)"

definition generic_post ::
  "config \<Rightarrow> world \<Rightarrow> request \<Rightarrow> params \<Rightarrow> state \<Rightarrow> state \<times> response" where
  "generic_post cfg w rq ps st =
     (case post_items cfg w (path_of (rq_segments rq)) ps (rq_body rq) st of
        (st1, Some r) \<Rightarrow> (st1, r)
      | (st1, None) \<Rightarrow> no_route st1)"

definition app :: "config \<Rightarrow> world \<Rightarrow> request \<Rightarrow> state \<Rightarrow> state \<times> response" where
  "app cfg w rq st =
     (case rq_segments rq of
        [a, t] \<Rightarrow>
          (if a \<noteq> ''api'' then no_route st
           else if t = ''activity'' then
             (case rq_verb rq of
                GET \<Rightarrow> get_activity cfg w st
              | POST \<Rightarrow> post_activity cfg w (rq_body rq) st
              | DELETE \<Rightarrow> delete_activity cfg w st
              | PUT \<Rightarrow> no_route st)
           else
             (case rq_verb rq of
                GET \<Rightarrow> get_items cfg w (by_type t) st
              | POST \<Rightarrow> generic_post cfg w rq (by_type t) st
              | _ \<Rightarrow> no_route st))
      | [a, t, i] \<Rightarrow>
          (if a \<noteq> ''api'' then no_route st
           else
             (case rq_verb rq of
                GET \<Rightarrow> (if t = ''codes'' then get_items cfg w (by_subtype i) st else no_route st)
              | POST \<Rightarrow>
                  (if t = ''codes'' then generic_post cfg w rq (by_subtype i) st
                   else if t = ''files'' \<and> i = ''upload''
                   then upload_route cfg w (rq_body rq) (rq_part rq) st
                   else no_route st)
              | DELETE \<Rightarrow> delete_item cfg w (by_type t) i st
              | PUT \<Rightarrow> update_item cfg w (by_type t) i (rq_body rq) st))
      | [a, t, s, i] \<Rightarrow>
          (if a \<noteq> ''api'' then no_route st
           else
             (case rq_verb rq of
                GET \<Rightarrow>
                  (if t = ''files'' \<and> s = ''download'' then download_file cfg w i st
                   else no_route st)
              | POST \<Rightarrow> no_route st
              | DELETE \<Rightarrow>
                  (if t = ''codes'' then delete_item cfg w (by_subtype s) i st else no_route st)
              | PUT \<Rightarrow>
                  (if t = ''codes'' then update_item cfg w (by_subtype s) i (rq_body rq) st
                   else no_route st)))
      | _ \<Rightarrow> no_route st)"

section \<open>Notions used in the statements\<close>

text \<open>
  The database can be reached (the cached connection is ready, or a new one is made),
  and the state in which a handler continues after \<open>connectToDatabase\<close>.
\<close>

definition connected :: "config \<Rightarrow> world \<Rightarrow> state \<Rightarrow> state" where
  "connected cfg w st = fst (connectToDatabase cfg w st)"

definition db_available :: "config \<Rightarrow> world \<Rightarrow> state \<Rightarrow> bool" where
  "db_available cfg w st =
     ((cachedDb st \<and> ready w) \<or> (env_set (MONGODB_URI cfg) \<and> connect_error w = None))"

text \<open>
  The tokens of the registry: the keys of \<open>modelMap\<close> and the five code subtypes
  that \<open>getModel\<close> maps to them.
\<close>

definition registered :: "string \<Rightarrow> bool" where
  "registered token =
     (token \<in> set [''python'', ''javascript'', ''html'', ''css'', ''other''] \<or>
      token \<in> set (map fst modelMap))"

text \<open>Newest first.\<close>

definition date_descending :: "doc list \<Rightarrow> bool" where
  "date_descending ds = sorted_wrt (\<lambda>a b. date_key b \<le> date_key a) ds"

text \<open>The calls to the object store among the recorded events.\<close>

fun is_s3_event :: "event \<Rightarrow> bool" where
  "is_s3_event (S3Put k) = True"
| "is_s3_event (S3Delete k) = True"
| "is_s3_event (S3DeleteFailed k) = True"
| "is_s3_event e = False"

definition s3_events :: "state \<Rightarrow> event list" where
  "s3_events st = filter is_s3_event (events st)"

subsection \<open>Concrete inputs\<close>

definition ex_config :: config where
  "ex_config =
     \<lparr>MONGODB_URI = Some ''mongodb://db/app'', AWS_ACCESS_KEY_ID = Some ''AKIAEXAMPLE'',
      AWS_SECRET_ACCESS_KEY = Some ''secret'', AWS_REGION = None,
      S3_BUCKET_NAME = Some ''bucket''\<rparr>"

definition ex_degraded :: config where
  "ex_degraded = ex_config\<lparr>AWS_ACCESS_KEY_ID := None, AWS_SECRET_ACCESS_KEY := None\<rparr>"

definition ex_world :: world where
  "ex_world =
     \<lparr>now = 1000, random16 = (\<lambda>k. 0), ready = True, connect_error = None,
      s3_error = None, multer_error = None, lib_cast = (\<lambda>t v. None)\<rparr>"

definition ex_state :: state where
  "ex_state =
     \<lparr>db = (\<lambda>m. []), bucket = [], scratch = [], cachedDb = True, console = [],
      events = []\<rparr>"

definition ex_file :: doc where
  "ex_file =
     [(''id'', JStr ''f1''), (''title'', JStr ''report''), (''tags'', JArr []),
      (''filename'', JStr ''uploads/1-report.pdf''), (''date'', JDate 1)]"

definition ex_files_state :: state where
  "ex_files_state =
     ex_state\<lparr>db := (\<lambda>m. [])(File := [ex_file]), bucket := [''uploads/1-report.pdf'']\<rparr>"

definition ex_note :: doc where
  "ex_note = [(''id'', JStr ''n1''), (''title'', JStr ''todo''), (''date'', JDate 7)]"

definition ex_notes_state :: state where
  "ex_notes_state = ex_state\<lparr>db := (\<lambda>m. [])(Note := [ex_note])\<rparr>"

definition ex_after_delete :: state where
  "ex_after_delete = fst (delete_item ex_config ex_world (by_type ''notes'') ''n1'' ex_notes_state)"

definition ex_unsorted :: state where
  "ex_unsorted =
     ex_state\<lparr>db := (\<lambda>m. [])(Note :=
       [[(''id'', JStr ''a''), (''title'', JStr ''first''), (''date'', JDate 3)],
        [(''id'', JStr ''b''), (''title'', JStr ''second''), (''date'', JDate 9)],
        [(''id'', JStr ''c''), (''title'', JStr ''third''), (''date'', JDate 7)]])\<rparr>"

definition ex_ghost :: obj where
  "ex_ghost =
     [(''title'', JStr ''ghost''), (''filename'', JStr ''uploads/ghost.bin''),
      (''path'', JStr ''https://bucket.s3.amazonaws.com/uploads/ghost.bin'')]"

section \<open>Basic facts\<close>

subsection \<open>Connecting, and the error handler\<close>

lemma connect_fields:
  "db (fst (connectToDatabase cfg w st)) = db st"
  "bucket (fst (connectToDatabase cfg w st)) = bucket st"
  "scratch (fst (connectToDatabase cfg w st)) = scratch st"
  "events (fst (connectToDatabase cfg w st)) = events st"
  by (simp_all add: connectToDatabase_def split: option.splits)

lemma connected_fields [simp]:
  "db (connected cfg w st) = db st"
  "bucket (connected cfg w st) = bucket st"
  "scratch (connected cfg w st) = scratch st"
  "events (connected cfg w st) = events st"
  by (simp_all add: connected_def connect_fields)

lemma connect_eq:
  "connectToDatabase cfg w st = (connected cfg w st, snd (connectToDatabase cfg w st))"
  by (simp add: connected_def)

lemma connect_available:
  "db_available cfg w st \<Longrightarrow> connectToDatabase cfg w st = (connected cfg w st, Inr ())"
  by (auto simp: db_available_def connected_def connectToDatabase_def)

lemma error_handler_fields [simp]:
  "db (fst (error_handler e st)) = db st"
  "bucket (fst (error_handler e st)) = bucket st"
  "scratch (fst (error_handler e st)) = scratch st"
  "events (fst (error_handler e st)) = events st"
  "status (snd (error_handler e st)) = 500"
  by (simp_all add: error_handler_def json_def)

lemma error_handler_json:
  "\<exists>msg. snd (error_handler e st) = json 500 (error_body msg)"
  by (auto simp: error_handler_def)

section \<open>The upload route\<close>

lemma upload_handler_fails:
  assumes "\<not> s3 cfg \<or> rf = None"
  shows "\<exists>msg. upload_handler cfg w body rf st = error_handler msg (connected cfg w st)"
proof (cases "snd (connectToDatabase cfg w st)")
  case (Inl e)
  then have "connectToDatabase cfg w st = (connected cfg w st, Inl e)"
    using connect_eq [of cfg w st] by simp
  then show ?thesis
    by (auto simp: upload_handler_def)
next
  case (Inr u)
  then have c: "connectToDatabase cfg w st = (connected cfg w st, Inr u)"
    using connect_eq [of cfg w st] by simp
  show ?thesis
  proof (cases "s3 cfg")
    case True
    with assms have "rf = None" by simp
    with True c show ?thesis
      by (auto simp: upload_handler_def)
  next
    case False
    with c show ?thesis
      by (auto simp: upload_handler_def)
  qed
qed

lemma uploadMiddleware_frame:
  assumes "\<not> s3 cfg \<or> part = None"
  shows "db (fst (uploadMiddleware cfg w part st)) = db st \<and>
         events (fst (uploadMiddleware cfg w part st)) = events st \<and>
         bucket (fst (uploadMiddleware cfg w part st)) = bucket st"
  using assms
  by (cases "multer_error w"; cases part) (auto simp: uploadMiddleware_def Let_def)

lemma uploadMiddleware_no_part:
  "uploadMiddleware cfg w None st = (st1, Inr rf) \<Longrightarrow> rf = None"
  by (cases "multer_error w") (auto simp: uploadMiddleware_def)

text \<open>
  Claim C7. A request to \<open>POST /api/files/upload\<close> that has no file part, or that
  arrives while the object store is not configured, is answered with status 500 and
  the JSON error envelope, and it creates no metadata record: every collection is
  what it was, and neither the database nor the object store has been written to.
\<close>

theorem upload_without_file_or_storage:
  assumes "\<not> s3 cfg \<or> part = None"
  shows "(\<exists>msg. snd (upload_route cfg w body part st) = json 500 (error_body msg)) \<and>
         db (fst (upload_route cfg w body part st)) = db st \<and>
         events (fst (upload_route cfg w body part st)) = events st \<and>
         bucket (fst (upload_route cfg w body part st)) = bucket st"
proof (cases "uploadMiddleware cfg w part st")
  case (Pair st1 r)
  have frame: "db st1 = db st" "events st1 = events st" "bucket st1 = bucket st"
    using uploadMiddleware_frame [OF assms, of w st] Pair by simp_all
  show ?thesis
  proof (cases r)
    case (Inl e)
    with Pair frame show ?thesis
      using error_handler_json [of e st1] by (simp add: upload_route_def)
  next
    case (Inr rf)
    have "\<not> s3 cfg \<or> rf = None"
      using assms Pair Inr uploadMiddleware_no_part by blast
    from upload_handler_fails [OF this, of w body st1]
    obtain msg where "upload_handler cfg w body rf st1 = error_handler msg (connected cfg w st1)"
      by blast
    with Pair Inr frame show ?thesis
      using error_handler_json [of msg "connected cfg w st1"] by (simp add: upload_route_def)
  qed
qed

theorem upload_without_file_or_storage_witness:
  "s3 ex_config \<and>
   snd (upload_route ex_config ex_world [] None ex_files_state) =
      json 500 (error_body ''No file uploaded.'') \<and>
   db (fst (upload_route ex_config ex_world [] None ex_files_state)) = db ex_files_state \<and>
   events (fst (upload_route ex_config ex_world [] None ex_files_state)) = []"
proof -
  have h: "\<not> s3 ex_config \<or> (None :: upfile option) = None"
    by simp
  have c: "s3 ex_config"
    by (simp add: s3_def ex_config_def)
  have v: "snd (upload_route ex_config ex_world [] None ex_files_state) =
      json 500 (error_body ''No file uploaded.'')"
    by (simp add: upload_route_def uploadMiddleware_def upload_handler_def
        connectToDatabase_def error_handler_def s3_def ex_config_def ex_world_def
        ex_files_state_def ex_state_def)
  have e: "events ex_files_state = []"
    by (simp add: ex_files_state_def ex_state_def)
  show ?thesis
    using c v e upload_without_file_or_storage [OF h, of ex_world "[]" ex_files_state]
    by simp
qed

section \<open>The activity log\<close>

lemma Activity_undefined: "Activity = None"
  by (simp add: Activity_def models_exports_def)

text \<open>
  Claim C1. The handler of \<open>GET /api/activity\<close> sorts by date, newest first, and
  keeps 20 entries, but only after the test \<open>if (!Activity)\<close>. models.js exports no
  \<open>Activity\<close>, so the binding is \<open>undefined\<close>, the handler throws, and whatever the
  state, the answer is status 500 with the error envelope: no entry is ever returned.
\<close>

theorem get_activity_always_fails:
  "status (snd (get_activity cfg w st)) = 500 \<and>
   (\<exists>msg. payload (snd (get_activity cfg w st)) = Json (error_body msg))"
proof (cases "snd (connectToDatabase cfg w st)")
  case (Inl e)
  then have "connectToDatabase cfg w st = (connected cfg w st, Inl e)"
    using connect_eq [of cfg w st] by simp
  then show ?thesis
    by (auto simp: get_activity_def get_activity_with_def error_handler_def json_def)
next
  case (Inr u)
  then have "connectToDatabase cfg w st = (connected cfg w st, Inr u)"
    using connect_eq [of cfg w st] by simp
  then show ?thesis
    by (auto simp: get_activity_def get_activity_with_def Activity_undefined
        error_handler_def json_def)
qed

lemma get_activity_unavailable:
  "db_available cfg w st \<Longrightarrow>
   get_activity cfg w st =
     error_handler ''Activity Model is not defined. Check models.js exports.''
       (connected cfg w st)"
  by (simp add: get_activity_def get_activity_with_def Activity_undefined connect_available)

text \<open>
  With a model bound to \<open>Activity\<close>, the same handler would answer with the first 20
  documents of the collection sorted by date, newest first.
\<close>

lemma get_activity_with_model:
  "db_available cfg w st \<Longrightarrow>
   get_activity_with (Some m) cfg w st =
     (connected cfg w st, json 200 (JArr (map JObj (take 20 (sort_date_desc (db st m))))))"
  by (simp add: get_activity_with_def connect_available Model_find_sorted_def)

section \<open>The registry\<close>

lemma resolve_by_type [simp]: "resolve_type (by_type t) = t"
  by (simp add: resolve_type_def by_type_def)

lemma resolve_by_subtype [simp]: "t \<noteq> [] \<Longrightarrow> resolve_type (by_subtype t) = t"
  by (simp add: resolve_type_def by_subtype_def)

lemma getModel_files [simp]: "getModel ''files'' = Some (Model File)"
  by (simp add: getModel_def modelMap_get_def modelMap_def)

lemma getModel_notes [simp]: "getModel ''notes'' = Some (Model Note)"
  by (simp add: getModel_def modelMap_get_def modelMap_def)

lemma getModel_registry:
  "getModel ''files'' = Some (Model File) \<and> getModel ''notes'' = Some (Model Note) \<and>
   getModel ''projects'' = Some (Model Project) \<and> getModel ''contacts'' = Some (Model Contact) \<and>
   getModel ''python'' = Some (Model PythonCode) \<and>
   getModel ''javascript'' = Some (Model JavascriptCode) \<and>
   getModel ''html'' = Some (Model HtmlCode) \<and> getModel ''css'' = Some (Model CssCode) \<and>
   getModel ''other'' = Some (Model OtherCode)"
  by (simp add: getModel_def modelMap_get_def modelMap_def)

lemma route_params:
  assumes "ps = by_type t \<or> (ps = by_subtype t \<and> t \<noteq> [])"
  shows "resolve_type ps = t"
  using assms by auto

lemma str_includes_self: "starts_with (t @ r) t"
  by (induction t) auto

lemma str_includes_suffix: "str_includes (p @ t) t"
proof (induction p)
  case Nil
  show ?case using str_includes_self [of t "[]"] by (cases t) auto
next
  case (Cons a p)
  then show ?case by simp
qed

section \<open>Unregistered type tokens\<close>

text \<open>
  Where the lookup of the token is empty, and the database is reachable, every
  generic route answers 404 with the JSON error envelope and changes nothing. The
  message of GET and POST is \<open>Invalid type: \<close> followed by the token; the message of
  DELETE and PUT is the fixed text \<open>Invalid type\<close>.
\<close>

lemma invalid_type_responses:
  assumes "db_available cfg w st" and "getModel t = None"
    and "ps = by_type t \<or> (ps = by_subtype t \<and> t \<noteq> [])"
  shows "get_items cfg w ps st =
           (connected cfg w st, json 404 (error_body (''Invalid type: '' @ t))) \<and>
         post_items cfg w path ps body st =
           (connected cfg w st, Some (json 404 (error_body (''Invalid type: '' @ t)))) \<and>
         delete_item cfg w ps i st = (connected cfg w st, json 404 (error_body ''Invalid type'')) \<and>
         update_item cfg w ps i body st =
           (connected cfg w st, json 404 (error_body ''Invalid type'')) \<and>
         str_includes (''Invalid type: '' @ t) t"
proof -
  have r: "resolve_type ps = t"
    using assms(3) by (rule route_params)
  have nf: "type_param ps \<noteq> Some ''files''"
    using assms(2,3) by (auto simp: by_type_def by_subtype_def)
  have c: "connectToDatabase cfg w st = (connected cfg w st, Inr ())"
    using assms(1) by (rule connect_available)
  have g: "get_items cfg w ps st =
           (connected cfg w st, json 404 (error_body (''Invalid type: '' @ t)))"
    by (simp add: get_items_def c r assms(2))
  have p: "post_items cfg w path ps body st =
           (connected cfg w st, Some (json 404 (error_body (''Invalid type: '' @ t))))"
    by (simp add: post_items_def c r nf assms(2))
  have d: "delete_item cfg w ps i st = (connected cfg w st, json 404 (error_body ''Invalid type''))"
    by (simp add: delete_item_def c r assms(2))
  have u: "update_item cfg w ps i body st =
           (connected cfg w st, json 404 (error_body ''Invalid type''))"
    by (simp add: update_item_def c r assms(2))
  show ?thesis
    using g p d u str_includes_suffix [of "''Invalid type: ''" t] by simp
qed

subsection \<open>The concrete inputs\<close>

lemma ex_available [simp]:
  "db_available ex_config ex_world ex_state"
  "db_available ex_degraded ex_world ex_state"
  "db_available ex_config ex_world ex_files_state"
  "db_available ex_degraded ex_world ex_files_state"
  by (simp_all add: db_available_def ex_state_def ex_files_state_def ex_world_def)

lemma ex_connected [simp]:
  "connected cfg ex_world ex_state = ex_state"
  "connected cfg ex_world ex_files_state = ex_files_state"
  by (simp_all add: connected_def connectToDatabase_def ex_state_def ex_files_state_def
      ex_world_def)

lemma widgets_unregistered: "getModel ''widgets'' = None"
  by (simp add: getModel_def modelMap_get_def modelMap_def inherited_methods_def)

lemma invalid_type_responses_widgets:
  "get_items ex_config ex_world (by_type ''widgets'') ex_state =
     (ex_state, json 404 (error_body ''Invalid type: widgets'')) \<and>
   delete_item ex_config ex_world (by_type ''widgets'') ''42'' ex_state =
     (ex_state, json 404 (error_body ''Invalid type''))"
  using invalid_type_responses [of ex_config ex_world ex_state "''widgets''"
      "by_type ''widgets''" "''/api/widgets''" "[]" "''42''"]
  by (simp add: widgets_unregistered)

lemma unregistered_examples: "\<not> registered ''widgets''" "\<not> registered ''constructor''"
  by (simp_all add: registered_def modelMap_def)

lemma inherited_lookup:
  "getModel ''constructor'' = Some ObjectFunction"
  "getModel ''toString'' = Some (PrototypeMethod ''toString'')"
  "getModel ''__proto__'' = Some ObjectPrototype"
  by (simp_all add: getModel_def modelMap_get_def modelMap_def inherited_methods_def)

text \<open>
  Claim C6. The claim does not hold of the code, in two ways. The test \<open>if (!Model)\<close>
  is meant to catch every token outside the registry, but \<open>constructor\<close>, which is not
  registered, finds \<open>Object\<close> in \<open>modelMap\<close>: GET, DELETE and PUT then throw and are
  answered 500, and POST is answered 201 with an empty object, where the claim says
  404. And for a token that the test does catch, such as \<open>widgets\<close>, DELETE and PUT
  answer 404 with the fixed message \<open>Invalid type\<close>, which does not name the token as
  the message of GET and POST does.
\<close>

theorem unregistered_token_responses:
  "\<not> registered ''constructor'' \<and>
   snd (get_items ex_config ex_world (by_type ''constructor'') ex_state) =
     json 500 (error_body ''Model.find is not a function'') \<and>
   snd (post_items ex_config ex_world ''/api/constructor'' (by_type ''constructor'') []
          ex_state) = Some (json 201 (JObj [])) \<and>
   snd (delete_item ex_config ex_world (by_type ''constructor'') ''42'' ex_state) =
     json 500 (error_body ''Model.findOne is not a function'') \<and>
   snd (update_item ex_config ex_world (by_type ''constructor'') ''42'' [] ex_state) =
     json 500 (error_body ''Model.findOneAndUpdate is not a function'') \<and>
   \<not> registered ''widgets'' \<and>
   snd (get_items ex_config ex_world (by_type ''widgets'') ex_state) =
     json 404 (error_body ''Invalid type: widgets'') \<and>
   snd (delete_item ex_config ex_world (by_type ''widgets'') ''42'' ex_state) =
     json 404 (error_body ''Invalid type'') \<and>
   snd (update_item ex_config ex_world (by_type ''widgets'') ''42'' [] ex_state) =
     json 404 (error_body ''Invalid type'') \<and>
   \<not> str_includes ''Invalid type'' ''widgets''"
  by (simp add: unregistered_examples inherited_lookup widgets_unregistered get_items_def
      post_items_def delete_item_def update_item_def connect_available error_handler_def
      by_type_def resolve_type_def)


section \<open>Records that do not exist\<close>

lemma first_with_list_ex: "list_ex P xs = (first_with P xs \<noteq> None)"
  by (induction xs) auto


text \<open>
  For a registered type and an id that no record of the collection has, DELETE
  answers 404.
\<close>

lemma delete_missing:
  assumes "db_available cfg w st" and "getModel t = Some (Model m)"
    and "ps = by_type t \<or> (ps = by_subtype t \<and> t \<noteq> [])"
    and "Model_findOne m i st = None"
  shows "delete_item cfg w ps i st = (connected cfg w st, json 404 (error_body ''Not found''))"
proof -
  have r: "resolve_type ps = t"
    using assms(3) by (rule route_params)
  have c: "connectToDatabase cfg w st = (connected cfg w st, Inr ())"
    using assms(1) by (rule connect_available)
  have f: "Model_findOne m i (connected cfg w st) = None"
    using assms(4) by (simp add: Model_findOne_def)
  show ?thesis
    by (simp add: delete_item_def c r f assms(2))
qed

text \<open>
  PUT does not: \<open>findOneAndUpdate\<close> returns \<open>null\<close> when nothing matches, and the
  handler sends it as it is, with status 200.
\<close>

lemma update_missing:
  assumes "db_available cfg w st" and "getModel t = Some (Model m)"
    and "ps = by_type t \<or> (ps = by_subtype t \<and> t \<noteq> [])"
    and "Model_findOne m i st = None"
  shows "update_item cfg w ps i body st = (connected cfg w st, json 200 JNull)"
proof -
  have r: "resolve_type ps = t"
    using assms(3) by (rule route_params)
  have c: "connectToDatabase cfg w st = (connected cfg w st, Inr ())"
    using assms(1) by (rule connect_available)
  have f: "first_with (has_id i) (db st m) = None"
    using assms(4) by (simp add: Model_findOne_def)
  show ?thesis
    by (simp add: update_item_def c r f assms(2) Model_findOneAndUpdate_def)
qed

lemma ex_notes_available [simp]: "db_available ex_config ex_world ex_notes_state"
  by (simp add: db_available_def ex_notes_state_def ex_state_def ex_world_def)

lemma ex_notes_connected [simp]: "connected cfg ex_world ex_notes_state = ex_notes_state"
  by (simp add: connected_def connectToDatabase_def ex_notes_state_def ex_state_def ex_world_def)

lemma ex_delete_note:
  "delete_item ex_config ex_world (by_type ''notes'') ''n1'' ex_notes_state =
     (ex_state\<lparr>db := (\<lambda>m. [])(Note := []), events := [DbDelete Note ''n1'']\<rparr>,
      \<lparr>status = 204, payload = NoBody\<rparr>)"
  by (simp add: delete_item_def connectToDatabase_def ex_world_def Model_findOne_def
      Model_deleteOne_def ex_notes_state_def ex_state_def ex_note_def has_id_def prop_of_def)

lemma ex_after_delete_eq:
  "ex_after_delete = ex_state\<lparr>db := (\<lambda>m. [])(Note := []), events := [DbDelete Note ''n1'']\<rparr>"
  by (simp add: ex_after_delete_def ex_delete_note)

text \<open>
  Claim C3. A note is deleted (204). A second DELETE of the same id is answered 404,
  but a PUT to the same id is answered 200 with the body \<open>null\<close>, where the claim
  says 404.
\<close>

theorem put_after_delete_is_not_404:
  "snd (delete_item ex_config ex_world (by_type ''notes'') ''n1'' ex_notes_state) =
     \<lparr>status = 204, payload = NoBody\<rparr> \<and>
   snd (delete_item ex_config ex_world (by_type ''notes'') ''n1'' ex_after_delete) =
     json 404 (error_body ''Not found'') \<and>
   snd (update_item ex_config ex_world (by_type ''notes'') ''n1'' [(''title'', JStr ''again'')]
          ex_after_delete) = json 200 JNull"
proof -
  have a: "db_available ex_config ex_world ex_after_delete"
    by (simp add: ex_after_delete_eq db_available_def ex_state_def ex_world_def)
  have n: "Model_findOne Note ''n1'' ex_after_delete = None"
    by (simp add: ex_after_delete_eq Model_findOne_def)
  have t: "by_type ''notes'' = by_type ''notes'' \<or> (by_type ''notes'' = by_subtype ''notes'' \<and> ''notes'' \<noteq> [])"
    by simp
  show ?thesis
    using delete_missing [OF a getModel_notes t n] update_missing [OF a getModel_notes t n]
    by (simp add: ex_delete_note)
qed


section \<open>Download\<close>

lemma s3_bucket: "s3 cfg \<Longrightarrow> S3_BUCKET_NAME cfg = Some (bucket_name cfg)"
  by (cases "S3_BUCKET_NAME cfg") (simp_all add: s3_def bucket_name_def)

text \<open>
  Claim C9, amended. With the object store configured and the database reachable,
  \<open>GET /api/files/download/:id\<close> answers 404 with a JSON error when no File record
  has the id, and never redirects then; when a record has the id and its \<open>filename\<close>
  is a non-empty string, the answer is a 302 redirect to a signed \<open>getObject\<close> URL
  for that key with a lifetime of 60 seconds. Nothing is written, and no response of
  this server carries the bytes of an object: a payload is JSON, empty, a redirect or
  the framework's page.
\<close>

theorem download_configured:
  assumes "s3 cfg" and "db_available cfg w st"
  shows "(Model_findOne File i st = None \<longrightarrow>
            download_file cfg w i st =
              (connected cfg w st, json 404 (error_body ''File not found''))) \<and>
         (\<forall>fileEntry k.
            Model_findOne File i st = Some fileEntry \<and>
            param_string (prop_of fileEntry ''filename'') = Some k \<longrightarrow>
            download_file cfg w i st =
              (connected cfg w st,
               \<lparr>status = 302,
                payload = Redirect \<lparr>su_operation = ''getObject'', su_bucket = bucket_name cfg,
                                     su_key = k, su_expires = 60\<rparr>\<rparr>))"
proof -
  have c: "connectToDatabase cfg w st = (connected cfg w st, Inr ())"
    using assms(2) by (rule connect_available)
  have f: "Model_findOne File i (connected cfg w st) = Model_findOne File i st"
    by (simp add: Model_findOne_def)
  show ?thesis
    by (simp add: download_file_def c f assms(1) s3_bucket getSignedUrl_def)
qed

text \<open>Without the object store the handler throws before it looks the record up.\<close>

lemma download_degraded:
  assumes "\<not> s3 cfg" and "db_available cfg w st"
  shows "download_file cfg w i st = error_handler ''AWS S3 not configured'' (connected cfg w st)"
  using assms by (simp add: download_file_def connect_available)

subsection \<open>Download on the concrete inputs\<close>

lemma ex_s3 [simp]: "s3 ex_config" "\<not> s3 ex_degraded"
  by (simp_all add: s3_def ex_config_def ex_degraded_def)

lemma ex_find_file [simp]:
  "Model_findOne File ''f1'' ex_files_state = Some ex_file"
  "Model_findOne File ''nope'' ex_files_state = None"
  by (simp_all add: Model_findOne_def ex_files_state_def ex_state_def ex_file_def has_id_def
      prop_of_def)

lemma ex_file_key [simp]:
  "param_string (prop_of ex_file ''filename'') = Some ''uploads/1-report.pdf''"
  by (simp add: ex_file_def prop_of_def)

theorem download_configured_witness:
  "download_file ex_config ex_world ''nope'' ex_files_state =
     (ex_files_state, json 404 (error_body ''File not found'')) \<and>
   download_file ex_config ex_world ''f1'' ex_files_state =
     (ex_files_state,
      \<lparr>status = 302,
       payload = Redirect \<lparr>su_operation = ''getObject'', su_bucket = ''bucket'',
                            su_key = ''uploads/1-report.pdf'', su_expires = 60\<rparr>\<rparr>)"
proof -
  have b: "bucket_name ex_config = ''bucket''"
    by (simp add: bucket_name_def ex_config_def)
  show ?thesis
    using download_configured [of ex_config ex_world ex_files_state "''nope''"]
      download_configured [of ex_config ex_world ex_files_state "''f1''"]
    by (simp add: b)
qed

text \<open>
  The claim as stated, for every request, fails in degraded mode: an id that no
  record has is answered 500, not 404 (and so is an id that a record has).
\<close>

theorem download_counterexample:
  "Model_findOne File ''nope'' ex_files_state = None \<and>
   snd (download_file ex_degraded ex_world ''nope'' ex_files_state) =
     json 500 (error_body ''AWS S3 not configured'') \<and>
   snd (download_file ex_degraded ex_world ''f1'' ex_files_state) =
     json 500 (error_body ''AWS S3 not configured'')"
  by (simp add: download_degraded error_handler_def)

section \<open>Deleting a file record\<close>

lemma deleteOne_fields [simp]:
  "bucket (Model_deleteOne m i st) = bucket st"
  "scratch (Model_deleteOne m i st) = scratch st"
  "s3_events (Model_deleteOne m i st) = s3_events st"
  by (simp_all add: Model_deleteOne_def s3_events_def)

lemma deleteOne_found:
  "Model_findOne m i st = Some item \<Longrightarrow>
   Model_deleteOne m i st =
     st\<lparr>db := (db st)(m := remove_first (has_id i) (db st m)),
        events := events st @ [DbDelete m i]\<rparr>"
  by (simp add: Model_deleteOne_def Model_findOne_def first_with_list_ex)

text \<open>
  Claim C5, amended. In degraded mode, with the database reachable, every download
  fails with the configuration error (status 500, \<open>AWS S3 not configured\<close>). The
  deletion of an existing File record does not fail: the guard \<open>type === 'files' && s3\<close>
  skips the object store, so no call to it is made, the metadata record is removed and
  the answer is 204.
\<close>

theorem degraded_mode:
  assumes "\<not> s3 cfg" and "db_available cfg w st"
  shows "snd (download_file cfg w i st) = json 500 (error_body ''AWS S3 not configured'') \<and>
         (\<forall>item. Model_findOne File i st = Some item \<longrightarrow>
            delete_item cfg w (by_type ''files'') i st =
              (connected cfg w st
                 \<lparr>db := (db st)(File := remove_first (has_id i) (db st File)),
                  events := events st @ [DbDelete File i]\<rparr>,
               \<lparr>status = 204, payload = NoBody\<rparr>))"
proof -
  have c: "connectToDatabase cfg w st = (connected cfg w st, Inr ())"
    using assms(2) by (rule connect_available)
  have f: "Model_findOne File i (connected cfg w st) = Model_findOne File i st"
    by (simp add: Model_findOne_def)
  have d: "snd (download_file cfg w i st) = json 500 (error_body ''AWS S3 not configured'')"
    using download_degraded [OF assms] by (simp add: error_handler_def)
  have e: "delete_item cfg w (by_type ''files'') i st =
              (connected cfg w st
                 \<lparr>db := (db st)(File := remove_first (has_id i) (db st File)),
                  events := events st @ [DbDelete File i]\<rparr>,
               \<lparr>status = 204, payload = NoBody\<rparr>)"
    if "Model_findOne File i st = Some item" for item
  proof -
    have "Model_findOne File i (connected cfg w st) = Some item"
      using that f by simp
    then show ?thesis
      using deleteOne_found [of File i "connected cfg w st" item]
      by (simp add: delete_item_def c assms(1))
  qed
  show ?thesis
    using d e by blast
qed

theorem degraded_mode_witness:
  "snd (download_file ex_degraded ex_world ''f1'' ex_files_state) =
     json 500 (error_body ''AWS S3 not configured'') \<and>
   delete_item ex_degraded ex_world (by_type ''files'') ''f1'' ex_files_state =
     (ex_files_state\<lparr>db := (db ex_files_state)(File := []), events := [DbDelete File ''f1'']\<rparr>,
      \<lparr>status = 204, payload = NoBody\<rparr>)"
proof -
  have r: "remove_first (has_id ''f1'') (db ex_files_state File) = []"
    by (simp add: ex_files_state_def ex_state_def ex_file_def has_id_def prop_of_def)
  have e: "events ex_files_state = []"
    by (simp add: ex_files_state_def ex_state_def)
  show ?thesis
    using degraded_mode [of ex_degraded ex_world ex_files_state "''f1''"]
    by (simp add: r e)
qed

text \<open>
  The claim as stated fails: in degraded mode the deletion is answered 204, the only
  recorded operation is the removal of the metadata record, and the object is still
  in the bucket.
\<close>

lemma ex_delete_degraded:
  "delete_item ex_degraded ex_world (by_type ''files'') ''f1'' ex_files_state =
     (ex_state\<lparr>db := (\<lambda>m. [])(File := []), bucket := [''uploads/1-report.pdf''],
               events := [DbDelete File ''f1'']\<rparr>,
      \<lparr>status = 204, payload = NoBody\<rparr>)"
  by (simp add: delete_item_def connectToDatabase_def ex_world_def Model_findOne_def
      Model_deleteOne_def ex_files_state_def ex_state_def ex_file_def has_id_def prop_of_def)

theorem degraded_delete_counterexample:
  "\<not> s3 ex_degraded \<and>
   snd (delete_item ex_degraded ex_world (by_type ''files'') ''f1'' ex_files_state) =
     \<lparr>status = 204, payload = NoBody\<rparr> \<and>
   events (fst (delete_item ex_degraded ex_world (by_type ''files'') ''f1'' ex_files_state)) =
     [DbDelete File ''f1''] \<and>
   db (fst (delete_item ex_degraded ex_world (by_type ''files'') ''f1'' ex_files_state)) File = [] \<and>
   bucket (fst (delete_item ex_degraded ex_world (by_type ''files'') ''f1'' ex_files_state)) =
     [''uploads/1-report.pdf'']"
  by (simp add: ex_delete_degraded)

lemma deleteObject_ok:
  "param_string key = Some k \<Longrightarrow> s3_error w = None \<Longrightarrow>
   deleteObject w key st =
     (st\<lparr>bucket := removeAll k (bucket st), events := events st @ [S3Delete k]\<rparr>, Inr ())"
  by (simp add: deleteObject_def)

lemma deleteObject_fails:
  "param_string key = Some k \<Longrightarrow> s3_error w = Some e \<Longrightarrow>
   deleteObject w key st = (st\<lparr>events := events st @ [S3DeleteFailed k]\<rparr>, Inl e)"
  by (simp add: deleteObject_def)

text \<open>
  Claim C4, amended. With the object store configured and the database reachable,
  deleting an existing File record whose \<open>filename\<close> is a key first deletes the
  object and then the metadata record (204). When the deletion of the object fails,
  the error is passed to the error handler: it is logged on the console, the answer
  is 500, and the metadata record is not deleted; the collections and the bucket are
  what they were.
\<close>

theorem delete_file_configured:
  assumes "s3 cfg" and "db_available cfg w st"
    and "Model_findOne File i st = Some item"
    and "param_string (prop_of item ''filename'') = Some k"
  shows "(s3_error w = None \<longrightarrow>
            delete_item cfg w (by_type ''files'') i st =
              (connected cfg w st
                 \<lparr>bucket := removeAll k (bucket st),
                  db := (db st)(File := remove_first (has_id i) (db st File)),
                  events := events st @ [S3Delete k, DbDelete File i]\<rparr>,
               \<lparr>status = 204, payload = NoBody\<rparr>)) \<and>
         (\<forall>e. s3_error w = Some e \<longrightarrow>
            delete_item cfg w (by_type ''files'') i st =
              error_handler e (connected cfg w st\<lparr>events := events st @ [S3DeleteFailed k]\<rparr>) \<and>
            status (snd (delete_item cfg w (by_type ''files'') i st)) = 500 \<and>
            db (fst (delete_item cfg w (by_type ''files'') i st)) = db st \<and>
            bucket (fst (delete_item cfg w (by_type ''files'') i st)) = bucket st \<and>
            console (fst (delete_item cfg w (by_type ''files'') i st)) =
              console (connected cfg w st) @ [''Server Error: '' @ e])"
proof -
  have c: "connectToDatabase cfg w st = (connected cfg w st, Inr ())"
    using assms(2) by (rule connect_available)
  have f: "Model_findOne File i (connected cfg w st) = Some item"
    using assms(3) by (simp add: Model_findOne_def)
  have ok: "delete_item cfg w (by_type ''files'') i st =
              (connected cfg w st
                 \<lparr>bucket := removeAll k (bucket st),
                  db := (db st)(File := remove_first (has_id i) (db st File)),
                  events := events st @ [S3Delete k, DbDelete File i]\<rparr>,
               \<lparr>status = 204, payload = NoBody\<rparr>)"
    if n: "s3_error w = None"
  proof -
    let ?st2 = "connected cfg w st\<lparr>bucket := removeAll k (bucket (connected cfg w st)),
                  events := events (connected cfg w st) @ [S3Delete k]\<rparr>"
    have "Model_findOne File i ?st2 = Some item"
      using assms(3) by (simp add: Model_findOne_def)
    then have "Model_deleteOne File i ?st2 =
        ?st2\<lparr>db := (db ?st2)(File := remove_first (has_id i) (db ?st2 File)),
             events := events ?st2 @ [DbDelete File i]\<rparr>"
      by (rule deleteOne_found)
    then show ?thesis
      by (simp add: delete_item_def c f assms(1) deleteObject_ok [OF assms(4) n])
  qed
  have bad: "delete_item cfg w (by_type ''files'') i st =
              error_handler e (connected cfg w st\<lparr>events := events st @ [S3DeleteFailed k]\<rparr>)"
    if "s3_error w = Some e" for e
    by (simp add: delete_item_def c f assms(1) deleteObject_fails [OF assms(4) that])
  show ?thesis
    using ok bad by (auto simp: error_handler_def json_def)
qed

text \<open>
  The claim as stated fails: when the object store refuses the deletion, the request
  fails with 500 and the metadata record is still there.
\<close>

lemma ex_delete_s3_failure:
  "delete_item ex_config (ex_world\<lparr>s3_error := Some ''AccessDenied''\<rparr>) (by_type ''files'') ''f1''
     ex_files_state =
     (ex_files_state\<lparr>console := [''Server Error: AccessDenied''],
        events := [S3DeleteFailed ''uploads/1-report.pdf'']\<rparr>,
      json 500 (error_body ''AccessDenied''))"
  by (simp add: delete_item_def connectToDatabase_def ex_world_def Model_findOne_def
      deleteObject_def error_handler_def
      ex_files_state_def ex_state_def ex_file_def has_id_def prop_of_def)

theorem delete_file_counterexample:
  "s3 ex_config \<and>
   Model_findOne File ''f1'' ex_files_state = Some ex_file \<and>
   snd (delete_item ex_config (ex_world\<lparr>s3_error := Some ''AccessDenied''\<rparr>)
          (by_type ''files'') ''f1'' ex_files_state) = json 500 (error_body ''AccessDenied'') \<and>
   db (fst (delete_item ex_config (ex_world\<lparr>s3_error := Some ''AccessDenied''\<rparr>)
          (by_type ''files'') ''f1'' ex_files_state)) File = [ex_file] \<and>
   events (fst (delete_item ex_config (ex_world\<lparr>s3_error := Some ''AccessDenied''\<rparr>)
          (by_type ''files'') ''f1'' ex_files_state)) = [S3DeleteFailed ''uploads/1-report.pdf'']"
  by (simp add: ex_delete_s3_failure) (simp add: ex_files_state_def)

theorem delete_file_configured_witness:
  "delete_item ex_config ex_world (by_type ''files'') ''f1'' ex_files_state =
     (ex_state\<lparr>db := (\<lambda>m. [])(File := []),
        events := [S3Delete ''uploads/1-report.pdf'', DbDelete File ''f1'']\<rparr>,
      \<lparr>status = 204, payload = NoBody\<rparr>) \<and>
   status (snd (delete_item ex_config (ex_world\<lparr>s3_error := Some ''AccessDenied''\<rparr>)
          (by_type ''files'') ''f1'' ex_files_state)) = 500 \<and>
   db (fst (delete_item ex_config (ex_world\<lparr>s3_error := Some ''AccessDenied''\<rparr>)
          (by_type ''files'') ''f1'' ex_files_state)) = db ex_files_state"
proof -
  have a: "db_available ex_config (ex_world\<lparr>s3_error := Some ''AccessDenied''\<rparr>) ex_files_state"
    by (simp add: db_available_def ex_files_state_def ex_state_def ex_world_def)
  have n: "s3_error ex_world = None"
    by (simp add: ex_world_def)
  have s: "ex_files_state
             \<lparr>bucket := removeAll ''uploads/1-report.pdf'' (bucket ex_files_state),
              db := (db ex_files_state)
                (File := remove_first (has_id ''f1'') (db ex_files_state File)),
              events := events ex_files_state @
                [S3Delete ''uploads/1-report.pdf'', DbDelete File ''f1'']\<rparr> =
           ex_state\<lparr>db := (\<lambda>m. [])(File := []),
              events := [S3Delete ''uploads/1-report.pdf'', DbDelete File ''f1'']\<rparr>"
    by (simp add: ex_files_state_def ex_state_def ex_file_def has_id_def prop_of_def)
  show ?thesis
    using delete_file_configured [of ex_config ex_world ex_files_state "''f1''" ex_file
        "''uploads/1-report.pdf''"]
      delete_file_configured [OF ex_s3(1) a, of "''f1''" ex_file "''uploads/1-report.pdf''"]
    by (simp add: n s)
qed


section \<open>Listing a collection\<close>

lemma insert_desc_mset: "mset (insert_desc d ds) = add_mset d (mset ds)"
  by (induction ds) simp_all

lemma sort_date_desc_mset: "mset (sort_date_desc ds) = mset ds"
  by (induction ds) (simp_all add: insert_desc_mset)

lemma insert_desc_set: "set (insert_desc d ds) = insert d (set ds)"
  using insert_desc_mset [of d ds] by (metis set_mset_add_mset_insert set_mset_mset)

lemma insert_desc_descending:
  "date_descending ds \<Longrightarrow> date_descending (insert_desc d ds)"
proof (induction ds)
  case Nil
  show ?case by (simp add: date_descending_def)
next
  case (Cons e es)
  show ?case
  proof (cases "date_key e \<le> date_key d")
    case True
    with Cons.prems show ?thesis
      by (auto simp: date_descending_def intro: order_trans)
  next
    case False
    then have "date_key d \<le> date_key e" by simp
    with False Cons show ?thesis
      by (auto simp: date_descending_def insert_desc_set)
  qed
qed

lemma sort_date_desc_descending: "date_descending (sort_date_desc ds)"
  by (induction ds) (simp_all add: insert_desc_descending, simp add: date_descending_def)

lemma descending_sorted_rev:
  "date_descending ds \<Longrightarrow> sorted (rev (map date_key ds))"
  by (simp add: date_descending_def sorted_wrt_rev sorted_wrt_map flip: rev_map)

text \<open>
  Two lists of the same documents, both newest first, show the same dates in the
  same order: only documents of equal date can change places.
\<close>

lemma descending_dates_unique:
  assumes "date_descending xs" and "date_descending ys" and "mset xs = mset ys"
  shows "map date_key xs = map date_key ys"
proof -
  have m: "mset (rev (map date_key xs)) = mset (rev (map date_key ys))"
    using assms(3) by simp
  have "sort (rev (map date_key ys)) = rev (map date_key xs)"
    using m descending_sorted_rev [OF assms(1)] by (rule properties_for_sort)
  moreover have "sort (rev (map date_key ys)) = rev (map date_key ys)"
    using descending_sorted_rev [OF assms(2)] by (simp add: sorted_sort_id)
  ultimately show ?thesis by simp
qed

text \<open>
  Claim C8. For a registered type, addressed as \<open>/api/{type}\<close> or as
  \<open>/api/codes/{subtype}\<close>, and any state of its collection, with the database
  reachable, GET answers 200 with all the records of the collection and no others,
  newest first; the empty list when the collection is empty. The order of the dates
  in the answer does not depend on the order in which the records were inserted.
\<close>

theorem list_newest_first:
  assumes "db_available cfg w st" and "getModel t = Some (Model m)"
    and "ps = by_type t \<or> (ps = by_subtype t \<and> t \<noteq> [])"
  shows "\<exists>items.
           get_items cfg w ps st = (connected cfg w st, json 200 (JArr (map JObj items))) \<and>
           mset items = mset (db st m) \<and>
           date_descending items \<and>
           (db st m = [] \<longrightarrow> items = []) \<and>
           (\<forall>ds. mset ds = mset (db st m) \<longrightarrow>
              map date_key (sort_date_desc ds) = map date_key items)"
proof -
  have r: "resolve_type ps = t"
    using assms(3) by (rule route_params)
  have c: "connectToDatabase cfg w st = (connected cfg w st, Inr ())"
    using assms(1) by (rule connect_available)
  let ?items = "sort_date_desc (db st m)"
  have g: "get_items cfg w ps st = (connected cfg w st, json 200 (JArr (map JObj ?items)))"
    by (simp add: get_items_def c r assms(2) Model_find_sorted_def)
  have u: "map date_key (sort_date_desc ds) = map date_key ?items"
    if "mset ds = mset (db st m)" for ds
    using that
    by (intro descending_dates_unique sort_date_desc_descending) (simp add: sort_date_desc_mset)
  have e: "db st m = [] \<longrightarrow> ?items = []"
    by simp
  show ?thesis
    using g u e sort_date_desc_mset [of "db st m"] sort_date_desc_descending [of "db st m"]
    by blast
qed

lemma ex_unsorted_available [simp]: "db_available ex_config ex_world ex_unsorted"
  by (simp add: db_available_def ex_unsorted_def ex_state_def ex_world_def)

lemma ex_unsorted_list:
  "get_items ex_config ex_world (by_type ''notes'') ex_unsorted =
     (ex_unsorted,
      json 200 (JArr (map JObj
        [[(''id'', JStr ''b''), (''title'', JStr ''second''), (''date'', JDate 9)],
         [(''id'', JStr ''c''), (''title'', JStr ''third''), (''date'', JDate 7)],
         [(''id'', JStr ''a''), (''title'', JStr ''first''), (''date'', JDate 3)]])))"
  by (simp add: get_items_def connectToDatabase_def ex_world_def Model_find_sorted_def
      ex_unsorted_def ex_state_def date_key_def prop_of_def)

theorem list_newest_first_witness:
  "get_items ex_config ex_world (by_type ''notes'') ex_unsorted =
     (ex_unsorted,
      json 200 (JArr (map JObj
        [[(''id'', JStr ''b''), (''title'', JStr ''second''), (''date'', JDate 9)],
         [(''id'', JStr ''c''), (''title'', JStr ''third''), (''date'', JDate 7)],
         [(''id'', JStr ''a''), (''title'', JStr ''first''), (''date'', JDate 3)]]))) \<and>
   (\<exists>items. get_items ex_config ex_world (by_subtype ''python'') ex_unsorted =
      (connected ex_config ex_world ex_unsorted, json 200 (JArr (map JObj items))) \<and>
      items = [])"
proof -
  have p: "getModel ''python'' = Some (Model PythonCode)"
    using getModel_registry by simp
  have e: "db ex_unsorted PythonCode = []"
    by (simp add: ex_unsorted_def ex_state_def)
  have "\<exists>items. get_items ex_config ex_world (by_subtype ''python'') ex_unsorted =
      (connected ex_config ex_world ex_unsorted, json 200 (JArr (map JObj items))) \<and>
      items = []"
    using list_newest_first [OF ex_unsorted_available p, of "by_subtype ''python''"] e
    by auto
  then show ?thesis
    using ex_unsorted_list by simp
qed


section \<open>Creating a record\<close>

subsection \<open>Documents built from a schema\<close>

lemma literal_one: "literal [(k, x)] = (case x of None \<Rightarrow> [] | Some v \<Rightarrow> [(k, v)])"
  by (cases x) simp_all

lemma build_doc_Cons:
  assumes "build_doc w (p # ps) ob = Inr d"
  obtains x d' where "path_value w p ob = Inr x" and "build_doc w ps ob = Inr d'"
    and "d = literal [(p_name p, x)] @ d'"
  using assms by (auto split: sum.splits if_splits)

lemma build_doc_keys:
  "build_doc w sch ob = Inr d \<Longrightarrow> fst ` set d \<subseteq> p_name ` set sch"
proof (induction sch arbitrary: d)
  case Nil
  then show ?case by simp
next
  case (Cons p ps)
  from Cons.prems obtain x d' where x: "path_value w p ob = Inr x"
    and d': "build_doc w ps ob = Inr d'" and d: "d = literal [(p_name p, x)] @ d'"
    by (rule build_doc_Cons)
  from Cons.IH [OF d'] d show ?case
    by (auto simp: literal_one split: option.splits)
qed

text \<open>
  The property that a new document has under the name of a schema path is the value
  of that path: the cast property of the object, or the default.
\<close>

lemma build_doc_path:
  assumes "build_doc w sch ob = Inr d" and "distinct (map p_name sch)" and "p \<in> set sch"
  shows "path_value w p ob = Inr (prop_of d (p_name p))"
  using assms
proof (induction sch arbitrary: d)
  case Nil
  then show ?case by simp
next
  case (Cons q qs)
  from Cons.prems(1) obtain x d' where x: "path_value w q ob = Inr x"
    and d': "build_doc w qs ob = Inr d'" and d: "d = literal [(p_name q, x)] @ d'"
    by (rule build_doc_Cons)
  have keys: "fst ` set d' \<subseteq> p_name ` set qs"
    using d' by (rule build_doc_keys)
  show ?case
  proof (cases "p = q")
    case True
    have "p_name q \<notin> fst ` set d'"
      using keys Cons.prems(2) by auto
    then have "map_of d' (p_name q) = None"
      by (simp add: map_of_eq_None_iff)
    with True x d show ?thesis
      by (cases x) (simp_all add: prop_of_def)
  next
    case False
    with Cons.prems(3) have in_qs: "p \<in> set qs" by simp
    then have "p_name p \<in> set (map p_name qs)"
      by simp
    moreover have "p_name q \<notin> set (map p_name qs)"
      using Cons.prems(2) by simp
    ultimately have ne: "p_name p \<noteq> p_name q"
      by metis
    have "path_value w p ob = Inr (prop_of d' (p_name p))"
      using Cons.IH [OF d' _ in_qs] Cons.prems(2) by simp
    with ne d show ?thesis
      by (cases x) (simp_all add: prop_of_def)
  qed
qed

lemma schema_distinct: "distinct (map p_name (schema_of m))"
  by (cases m)
    (simp_all add: fileSchema_def noteSchema_def projectSchema_def contactSchema_def
      codeSchema_def optional_path_def required_path_def date_path_def)



lemma spread_with_prop:
  "prop_of (spread_with ob k v) k' = (if k' = k then Some v else prop_of ob k')"
  by (simp add: prop_of_def spread_with_def update_conv')

lemma path_value_spread:
  "p_name p \<noteq> k \<Longrightarrow> path_value w p (spread_with ob k v) = path_value w p ob"
  by (simp add: path_value_def spread_with_prop)

lemma Model_create_cases:
  "(\<exists>e. Model_create w m ob st = (st, Inl e)) \<or>
   (\<exists>d. build_doc w (schema_of m) ob = Inr d \<and>
      Model_create w m ob st =
        (st\<lparr>db := (db st)(m := db st m @ [d]), events := events st @ [DbInsert m d]\<rparr>, Inr d))"
  by (cases "build_doc w (schema_of m) ob") (auto simp: Model_create_def)

lemma generateId_length: "length (generateId w) = 36"
  by (simp add: generateId_def Let_def)


subsection \<open>The generic POST route\<close>

lemma map_prod_Some: "map_prod id Some p = (a, Some b) \<Longrightarrow> b = snd p"
  by (cases p) auto

text \<open>
  A request that the generic POST route answers with 201 for a model has stored the
  document built from the body and the chosen id, and the answer is that document.
\<close>

lemma post_items_stored:
  assumes reg: "getModel (resolve_type ps) = Some (Model m)"
    and post: "post_items cfg w path ps body st = (st', Some r)"
    and ok: "status r = 201"
  obtains saved where
    "build_doc w (schema_of m)
       (spread_with body ''id'' (or_default (prop_of body ''id'') (JStr (generateId w)))) =
     Inr saved"
    and "r = json 201 (JObj saved)"
    and "st' = connected cfg w st
           \<lparr>db := (db st)(m := db st m @ [saved]),
            events := events st @ [DbInsert m saved]\<rparr>"
proof -
  let ?item = "spread_with body ''id'' (or_default (prop_of body ''id'') (JStr (generateId w)))"
  let ?st1 = "connected cfg w st"
  have nonext: "\<not> (type_param ps = Some ''files'' \<and> str_includes path ''upload'')"
    using post by (auto simp: post_items_def)
  obtain c where c: "connectToDatabase cfg w st = (?st1, c)"
    using connect_eq by blast
  have conn: "c = Inr ()"
  proof (cases c)
    case (Inl e)
    with c nonext post have "map_prod id Some (error_handler e ?st1) = (st', Some r)"
      by (auto simp: post_items_def)
    then have "r = snd (error_handler e ?st1)"
      by (rule map_prod_Some)
    with ok show ?thesis by simp
  next
    case (Inr u)
    then show ?thesis by simp
  qed
  have step: "post_items cfg w path ps body st =
      (case Model_create w m ?item ?st1 of
         (st2, Inl e) \<Rightarrow> map_prod id Some (error_handler e st2)
       | (st2, Inr savedItem) \<Rightarrow> (st2, Some (json 201 (JObj savedItem))))"
    using nonext by (auto simp: post_items_def c conn reg Let_def)
  from Model_create_cases [of w m ?item ?st1]
  obtain saved where b: "build_doc w (schema_of m) ?item = Inr saved"
    and cr: "Model_create w m ?item ?st1 =
        (?st1\<lparr>db := (db ?st1)(m := db ?st1 m @ [saved]),
              events := events ?st1 @ [DbInsert m saved]\<rparr>, Inr saved)"
  proof
    assume "\<exists>e. Model_create w m ?item ?st1 = (?st1, Inl e)"
    then obtain e where "Model_create w m ?item ?st1 = (?st1, Inl e)" ..
    with step post have "map_prod id Some (error_handler e ?st1) = (st', Some r)"
      by auto
    then have "r = snd (error_handler e ?st1)"
      by (rule map_prod_Some)
    with ok have False by simp
    then show ?thesis ..
  next
    assume "\<exists>d. build_doc w (schema_of m) ?item = Inr d \<and>
      Model_create w m ?item ?st1 =
        (?st1\<lparr>db := (db ?st1)(m := db ?st1 m @ [d]),
              events := events ?st1 @ [DbInsert m d]\<rparr>, Inr d)"
    then show ?thesis using that by blast
  qed
  from step cr post have "r = json 201 (JObj saved)"
    and "st' = ?st1\<lparr>db := (db st)(m := db st m @ [saved]),
              events := events st @ [DbInsert m saved]\<rparr>"
    by auto
  with b show ?thesis
    by (rule that)
qed


subsection \<open>Creating notes on the concrete inputs\<close>

lemma ex_world_fields [simp]:
  "now ex_world = 1000" "ready ex_world" "connect_error ex_world = None"
  "s3_error ex_world = None" "multer_error ex_world = None"
  "lib_cast ex_world = (\<lambda>t v. None)"
  by (simp_all add: ex_world_def)

lemma ex_generateId [simp]: "generateId ex_world = ''00000000-0000-4000-8000-000000000000''"
  by (simp add: generateId_def ex_world_def)






section \<open>The generic create and the object store\<close>

lemma s3_events_frame [simp]:
  "s3_events (connected cfg w st) = s3_events st"
  "s3_events (fst (error_handler e st)) = s3_events st"
  "s3_events (st\<lparr>db := d, events := events st @ [DbInsert m x]\<rparr>) = s3_events st"
  by (simp_all add: s3_events_def)

lemma Model_create_frame:
  "bucket (fst (Model_create w m ob st)) = bucket st \<and>
   s3_events (fst (Model_create w m ob st)) = s3_events st \<and>
   scratch (fst (Model_create w m ob st)) = scratch st"
  using Model_create_cases [of w m ob st] by auto

lemma post_items_frame:
  "bucket (fst (post_items cfg w path ps body st)) = bucket st \<and>
   s3_events (fst (post_items cfg w path ps body st)) = s3_events st \<and>
   scratch (fst (post_items cfg w path ps body st)) = scratch st"
proof (cases "type_param ps = Some ''files'' \<and> str_includes path ''upload''")
  case True
  then show ?thesis by (simp add: post_items_def)
next
  case False
  let ?st1 = "connected cfg w st"
  let ?item = "spread_with body ''id'' (or_default (prop_of body ''id'') (JStr (generateId w)))"
  obtain c where c: "connectToDatabase cfg w st = (?st1, c)"
    using connect_eq by blast
  show ?thesis
  proof (cases c)
    case (Inl e)
    with False c show ?thesis
      by (auto simp: post_items_def)
  next
    case (Inr u)
    show ?thesis
    proof (cases "getModel (resolve_type ps)")
      case None
      with False c Inr show ?thesis
        by (auto simp: post_items_def)
    next
      case (Some ref)
      show ?thesis
      proof (cases ref)
        case (Model m)
        have step: "post_items cfg w path ps body st =
          (case Model_create w m ?item ?st1 of
             (st2, Inl e) \<Rightarrow> map_prod id Some (error_handler e st2)
           | (st2, Inr savedItem) \<Rightarrow> (st2, Some (json 201 (JObj savedItem))))"
          using False c Inr Some Model by (auto simp: post_items_def Let_def)
        obtain st2 r where cr: "Model_create w m ?item ?st1 = (st2, r)"
          by (cases "Model_create w m ?item ?st1")
        have f: "bucket st2 = bucket st" "s3_events st2 = s3_events st" "scratch st2 = scratch st"
          using Model_create_frame [of w m ?item ?st1] cr by simp_all
        show ?thesis
          using f by (cases r) (simp_all add: step cr)
      next
        case ObjectFunction
        with False c Inr Some show ?thesis
          by (auto simp: post_items_def Let_def)
      next
        case ObjectPrototype
        with False c Inr Some show ?thesis
          by (auto simp: post_items_def Let_def)
      next
        case (PrototypeMethod k)
        with False c Inr Some show ?thesis
          by (auto simp: post_items_def Let_def)
      qed
    qed
  qed
qed

lemma optional_string_value:
  assumes "path_value w (optional_path k TString) ob = Inr x"
  shows "x = (case prop_of ob k of None \<Rightarrow> None | Some v \<Rightarrow> castString w v)"
  using assms
  by (auto simp: path_value_def optional_path_def path_default_def split: option.splits)

text \<open>
  Claim C10. Whatever the type and the body, the generic POST route makes no call to
  the object store and leaves the bucket and the scratch directory as they were.
  Applied to the type \<open>files\<close>, a request answered 201 has inserted the File record
  that the schema builds from the body and the chosen id alone: its \<open>filename\<close> and
  \<open>path\<close> are the body's. So a record can be stored and returned whose \<open>filename\<close>
  names an object that the bucket never held, as the instance after the theorem shows.
\<close>

theorem generic_create_no_blob:
  "bucket (fst (post_items cfg w path ps body st)) = bucket st \<and>
   s3_events (fst (post_items cfg w path ps body st)) = s3_events st \<and>
   scratch (fst (post_items cfg w path ps body st)) = scratch st \<and>
   (\<forall>st' saved.
      resolve_type ps = ''files'' \<and>
      post_items cfg w path ps body st = (st', Some (json 201 (JObj saved))) \<longrightarrow>
      build_doc w fileSchema
        (spread_with body ''id'' (or_default (prop_of body ''id'') (JStr (generateId w)))) =
        Inr saved \<and>
      db st' File = db st File @ [saved] \<and>
      prop_of saved ''filename'' =
        (case prop_of body ''filename'' of None \<Rightarrow> None | Some v \<Rightarrow> castString w v) \<and>
      prop_of saved ''path'' =
        (case prop_of body ''path'' of None \<Rightarrow> None | Some v \<Rightarrow> castString w v))"
proof -
  let ?item = "spread_with body ''id'' (or_default (prop_of body ''id'') (JStr (generateId w)))"
  have stored: "build_doc w fileSchema ?item = Inr saved \<and>
      db st' File = db st File @ [saved] \<and>
      prop_of saved ''filename'' =
        (case prop_of body ''filename'' of None \<Rightarrow> None | Some v \<Rightarrow> castString w v) \<and>
      prop_of saved ''path'' =
        (case prop_of body ''path'' of None \<Rightarrow> None | Some v \<Rightarrow> castString w v)"
    if t: "resolve_type ps = ''files''"
      and post: "post_items cfg w path ps body st = (st', Some (json 201 (JObj saved)))"
    for st' saved
  proof -
    have reg: "getModel (resolve_type ps) = Some (Model File)"
      using t by simp
    have ok: "status (json 201 (JObj saved)) = 201"
      by (simp add: json_def)
    from reg post ok obtain saved' where b: "build_doc w (schema_of File) ?item = Inr saved'"
      and r: "json 201 (JObj saved) = json 201 (JObj saved')"
      and st': "st' = connected cfg w st
           \<lparr>db := (db st)(File := db st File @ [saved']),
            events := events st @ [DbInsert File saved']\<rparr>"
      by (rule post_items_stored)
    from r have eq: "saved' = saved"
      by (simp add: json_def)
    have d: "distinct (map p_name fileSchema)"
      using schema_distinct [of File] by simp
    have fin: "optional_path ''filename'' TString \<in> set fileSchema"
      "optional_path ''path'' TString \<in> set fileSchema"
      by (simp_all add: fileSchema_def)
    have b': "build_doc w fileSchema ?item = Inr saved"
      using b eq by simp
    have "path_value w (optional_path ''filename'' TString) ?item =
        Inr (prop_of saved ''filename'')"
      using build_doc_path [OF b' d fin(1)] by (simp add: optional_path_def)
    then have fv: "path_value w (optional_path ''filename'' TString) body =
        Inr (prop_of saved ''filename'')"
      by (simp add: path_value_spread optional_path_def)
    have "path_value w (optional_path ''path'' TString) ?item = Inr (prop_of saved ''path'')"
      using build_doc_path [OF b' d fin(2)] by (simp add: optional_path_def)
    then have pv: "path_value w (optional_path ''path'' TString) body =
        Inr (prop_of saved ''path'')"
      by (simp add: path_value_spread optional_path_def)
    have "db st' File = db st File @ [saved]"
      using st' eq by simp
    then show ?thesis
      using b' optional_string_value [OF fv] optional_string_value [OF pv] by simp
  qed
  show ?thesis
    using post_items_frame [of cfg w path ps body st] stored by blast
qed

lemma ex_post_ghost:
  "post_items ex_config ex_world ''/api/files'' (by_type ''files'') ex_ghost ex_state =
   (ex_state
      \<lparr>db := (\<lambda>m. [])(File :=
         [[(''id'', JStr ''00000000-0000-4000-8000-000000000000''), (''title'', JStr ''ghost''),
           (''tags'', JArr []), (''filename'', JStr ''uploads/ghost.bin''),
           (''path'', JStr ''https://bucket.s3.amazonaws.com/uploads/ghost.bin''),
           (''date'', JDate 1000)]]),
       events :=
         [DbInsert File
           [(''id'', JStr ''00000000-0000-4000-8000-000000000000''), (''title'', JStr ''ghost''),
            (''tags'', JArr []), (''filename'', JStr ''uploads/ghost.bin''),
            (''path'', JStr ''https://bucket.s3.amazonaws.com/uploads/ghost.bin''),
            (''date'', JDate 1000)]]\<rparr>,
    Some (json 201 (JObj
      [(''id'', JStr ''00000000-0000-4000-8000-000000000000''), (''title'', JStr ''ghost''),
       (''tags'', JArr []), (''filename'', JStr ''uploads/ghost.bin''),
       (''path'', JStr ''https://bucket.s3.amazonaws.com/uploads/ghost.bin''),
       (''date'', JDate 1000)])))"
  by (simp add: post_items_def connectToDatabase_def Model_create_def fileSchema_def
      required_path_def optional_path_def date_path_def path_value_def path_default_def
      castString_def castDate_def prop_of_def spread_with_def or_default_def by_type_def
      resolve_type_def ex_state_def ex_ghost_def)

theorem generic_create_no_blob_witness:
  "\<exists>saved.
     snd (post_items ex_config ex_world ''/api/files'' (by_type ''files'') ex_ghost ex_state) =
       Some (json 201 (JObj saved)) \<and>
     db (fst (post_items ex_config ex_world ''/api/files'' (by_type ''files'') ex_ghost
       ex_state)) File = [saved] \<and>
     prop_of saved ''filename'' = Some (JStr ''uploads/ghost.bin'') \<and>
     bucket (fst (post_items ex_config ex_world ''/api/files'' (by_type ''files'') ex_ghost
       ex_state)) = [] \<and>
     s3_events (fst (post_items ex_config ex_world ''/api/files'' (by_type ''files'') ex_ghost
       ex_state)) = []"
proof -
  let ?saved = "[(''id'', JStr ''00000000-0000-4000-8000-000000000000''), (''title'', JStr ''ghost''),
       (''tags'', JArr []), (''filename'', JStr ''uploads/ghost.bin''),
       (''path'', JStr ''https://bucket.s3.amazonaws.com/uploads/ghost.bin''),
       (''date'', JDate 1000)]"
  have e: "bucket ex_state = []" "s3_events ex_state = []"
    by (simp_all add: ex_state_def s3_events_def)
  have g: "prop_of ex_ghost ''filename'' = Some (JStr ''uploads/ghost.bin'')"
    by (simp add: ex_ghost_def prop_of_def)
  have r: "resolve_type (by_type ''files'') = ''files''"
    by simp
  have f: "prop_of ?saved ''filename'' = Some (JStr ''uploads/ghost.bin'')"
    using generic_create_no_blob [of ex_config ex_world "''/api/files''" "by_type ''files''"
        ex_ghost ex_state] r ex_post_ghost g
    by (simp add: castString_def)
  have fr: "bucket (fst (post_items ex_config ex_world ''/api/files'' (by_type ''files'') ex_ghost
       ex_state)) = []"
    "s3_events (fst (post_items ex_config ex_world ''/api/files'' (by_type ''files'') ex_ghost
       ex_state)) = []"
    using generic_create_no_blob [of ex_config ex_world "''/api/files''" "by_type ''files''"
        ex_ghost ex_state] e
    by simp_all
  show ?thesis
    using f fr by (intro exI [of _ ?saved]) (simp add: ex_post_ghost)
qed


section \<open>Routes and handlers\<close>

text \<open>
  The activity routes are registered before the generic ones, so \<open>/api/activity\<close>
  never reaches the registry; every other one-segment path does.
\<close>

lemma app_activity:
  "app cfg w \<lparr>rq_verb = GET, rq_segments = [''api'', ''activity''], rq_body = b, rq_part = p\<rparr> st =
     get_activity cfg w st"
  by (simp add: app_def)

lemma app_list:
  "t \<noteq> ''activity'' \<Longrightarrow>
   app cfg w \<lparr>rq_verb = GET, rq_segments = [''api'', t], rq_body = b, rq_part = p\<rparr> st =
     get_items cfg w (by_type t) st"
  by (simp add: app_def)

lemma app_list_codes:
  "app cfg w \<lparr>rq_verb = GET, rq_segments = [''api'', ''codes'', s], rq_body = b, rq_part = p\<rparr> st =
     get_items cfg w (by_subtype s) st"
  by (simp add: app_def)

lemma app_upload:
  "app cfg w \<lparr>rq_verb = POST, rq_segments = [''api'', ''files'', ''upload''], rq_body = b,
      rq_part = p\<rparr> st =
     upload_route cfg w b p st"
  by (simp add: app_def)

lemma app_download:
  "app cfg w \<lparr>rq_verb = GET, rq_segments = [''api'', ''files'', ''download'', i], rq_body = b,
      rq_part = p\<rparr> st =
     download_file cfg w i st"
  by (simp add: app_def)

lemma app_delete:
  "app cfg w \<lparr>rq_verb = DELETE, rq_segments = [''api'', t, i], rq_body = b, rq_part = p\<rparr> st =
     delete_item cfg w (by_type t) i st"
  by (simp add: app_def)

lemma app_update:
  "app cfg w \<lparr>rq_verb = PUT, rq_segments = [''api'', t, i], rq_body = b, rq_part = p\<rparr> st =
     update_item cfg w (by_type t) i b st"
  by (simp add: app_def)

text \<open>
  The test with which the generic POST handler steps aside for uploads never holds
  for a path that its own route matches: the parameter is \<open>files\<close> only for the path
  \<open>/api/files\<close>.
\<close>

lemma generic_post_files_not_passed_on:
  "snd (post_items cfg w (path_of [''api'', ''files'']) (by_type ''files'') body st) \<noteq> None"
proof -
  have n: "\<not> str_includes (path_of [''api'', ''files'']) ''upload''"
    by (simp add: path_of_def)
  show ?thesis
    using n
    by (cases "connectToDatabase cfg w st"; cases "snd (connectToDatabase cfg w st)")
      (auto simp: post_items_def Let_def split: prod.splits sum.splits)
qed


end
